theory Spec2Isabelle
  imports Complex_Main "HOL-Library.AList" "HOL-Library.Char_ord" "HOL-Library.List_Lexorder"
begin

section \<open>Errors\<close>

text \<open>
  Every \<^verbatim>\<open>raise\<close> of the source is a value. The Python exception class is the
  constructor; the argument says which message the source raises with.
  \<^item> \<open>ValueError HasNotBeenFitted\<close>: \<^verbatim>\<open>ValueError(f"{cls} has not been fitted yet.")\<close>
    (and \<^verbatim>\<open>"has not been fit yet."\<close> in \<^verbatim>\<open>imputers.py\<close>);
  \<^item> \<open>RuntimeError CouldNotBeFitted\<close>: the \<^verbatim>\<open>RuntimeError\<close> of \<^verbatim>\<open>scalers.py\<close>;
  \<^item> \<open>RuntimeError MustBeFitted\<close>: the error of an unfitted multi-column transformer;
  \<^item> \<open>ValueError BadArguments\<close>: the constructors' argument checks;
  \<^item> \<open>IndexError\<close>, \<open>TypeError\<close>: raised by Python itself;
  \<^item> \<open>PolarsError\<close>: any exception of the table engine (invalid operation on a
    data type, unknown column, duplicate column, shape mismatch);
  \<^item> \<open>NonFinite\<close>: a floating-point division by zero. The engine would return an
    infinity or NaN there; floats are modelled by real numbers, which have neither, so
    the model stops with this outcome instead of inventing a value.
\<close>

datatype reason = HasNotBeenFitted | CouldNotBeFitted | MustBeFitted | BadArguments

datatype error =
    ValueError reason
  | RuntimeError reason
  | IndexError
  | TypeError
  | PolarsError
  | NonFinite



definition bnd :: "error + 'a \<Rightarrow> ('a \<Rightarrow> error + 'b) \<Rightarrow> error + 'b" where
  "bnd m f = (case m of Inl e \<Rightarrow> Inl e | Inr x \<Rightarrow> f x)"

section \<open>The table engine\<close>

text \<open>
  The source is written against the polars engine. The part of it that the modelled
  code calls is written out here, after the engine's documented behaviour, for four
  data types. A \<^verbatim>\<open>Float64\<close> value is a real number (rounding, NaN and infinities are
  outside the model), an \<^verbatim>\<open>Int64\<close> value an integer (overflow is outside the model),
  a \<^verbatim>\<open>String\<close> or \<^verbatim>\<open>Categorical\<close> value a string. A missing entry is \<open>None\<close>.
\<close>

datatype dtype = Float64 | Int64 | String | Categorical

datatype payload =
    F64 "real option list"
  | I64 "int option list"
  | Str "string option list"
  | Cat "string option list"

record Series =
  name :: string
  data :: payload

text \<open>A Python scalar as the engine returns or accepts it (\<^verbatim>\<open>PythonLiteral\<close>).\<close>

datatype lit = LInt int | LFloat real | LStr string

fun payload_dtype :: "payload \<Rightarrow> dtype" where
  "payload_dtype (F64 xs) = Float64"
| "payload_dtype (I64 xs) = Int64"
| "payload_dtype (Str xs) = String"
| "payload_dtype (Cat xs) = Categorical"

fun payload_len :: "payload \<Rightarrow> nat" where
  "payload_len (F64 xs) = length xs"
| "payload_len (I64 xs) = length xs"
| "payload_len (Str xs) = length xs"
| "payload_len (Cat xs) = length xs"

fun payload_nulls :: "payload \<Rightarrow> bool list" where
  "payload_nulls (F64 xs) = map (\<lambda>x. x = None) xs"
| "payload_nulls (I64 xs) = map (\<lambda>x. x = None) xs"
| "payload_nulls (Str xs) = map (\<lambda>x. x = None) xs"
| "payload_nulls (Cat xs) = map (\<lambda>x. x = None) xs"

definition dtype :: "Series \<Rightarrow> dtype" where
  "dtype s = payload_dtype (data s)"

definition len :: "Series \<Rightarrow> nat" where
  "len s = payload_len (data s)"

definition is_null :: "Series \<Rightarrow> bool list" where
  "is_null s = payload_nulls (data s)"

definition null_count :: "Series \<Rightarrow> nat" where
  "null_count s = length (filter (\<lambda>b. b) (is_null s))"

definition all_null :: "Series \<Rightarrow> bool" where
  "all_null s = (null_count s = len s)"


text \<open>\<^verbatim>\<open>Expr.alias\<close>: the same values under another name.\<close>

definition alias_col :: "string \<Rightarrow> Series \<Rightarrow> Series" where
  "alias_col n s = s\<lparr>name := n\<rparr>"

subsection \<open>Shifting and filling\<close>

text \<open>
  \<^verbatim>\<open>shift(n)\<close> moves the values \<open>n\<close> places towards the end (towards the start for a
  negative \<open>n\<close>); the vacated places are null and the length is kept.
\<close>

definition shift_list :: "int \<Rightarrow> 'a option list \<Rightarrow> 'a option list" where
  "shift_list n xs =
     (if 0 \<le> n then take (length xs) (replicate (nat n) None @ xs)
      else drop (nat (- n)) xs @ replicate (min (nat (- n)) (length xs)) None)"

fun shift_payload :: "int \<Rightarrow> payload \<Rightarrow> payload" where
  "shift_payload n (F64 xs) = F64 (shift_list n xs)"
| "shift_payload n (I64 xs) = I64 (shift_list n xs)"
| "shift_payload n (Str xs) = Str (shift_list n xs)"
| "shift_payload n (Cat xs) = Cat (shift_list n xs)"

definition shift :: "Series \<Rightarrow> int \<Rightarrow> Series" where
  "shift s n = s\<lparr>data := shift_payload n (data s)\<rparr>"

definition fill_list :: "'a \<Rightarrow> 'a option list \<Rightarrow> 'a option list" where
  "fill_list v xs = map (\<lambda>x. case x of None \<Rightarrow> Some v | Some a \<Rightarrow> Some a) xs"

text \<open>
  \<^verbatim>\<open>fill_null(value)\<close>: the result has the common supertype of the column and the
  literal. A float literal turns an integer column into a float column; an integer
  literal leaves a float column a float column. A literal of the other kind (a string
  for a numeric column, a number for a string column) is modelled as an engine error.
\<close>

fun fill_null_payload :: "payload \<Rightarrow> lit \<Rightarrow> error + payload" where
  "fill_null_payload (F64 xs) (LFloat v) = Inr (F64 (fill_list v xs))"
| "fill_null_payload (F64 xs) (LInt v) = Inr (F64 (fill_list (of_int v) xs))"
| "fill_null_payload (I64 xs) (LInt v) = Inr (I64 (fill_list v xs))"
| "fill_null_payload (I64 xs) (LFloat v) =
     Inr (F64 (fill_list v (map (map_option of_int) xs)))"
| "fill_null_payload (Str xs) (LStr v) = Inr (Str (fill_list v xs))"
| "fill_null_payload (Cat xs) (LStr v) = Inr (Cat (fill_list v xs))"
| "fill_null_payload p v = Inl PolarsError"

definition fill_null :: "Series \<Rightarrow> lit \<Rightarrow> error + Series" where
  "fill_null s v = bnd (fill_null_payload (data s) v) (\<lambda>p. Inr (s\<lparr>data := p\<rparr>))"

text \<open>\<^verbatim>\<open>fill_null(strategy="forward")\<close> and \<^verbatim>\<open>"backward"\<close>: a null takes the nearest
  non-null value before it (after it); nulls with none before (after) stay.\<close>

fun forward_from :: "'a option \<Rightarrow> 'a option list \<Rightarrow> 'a option list" where
  "forward_from prev [] = []"
| "forward_from prev (None # xs) = prev # forward_from prev xs"
| "forward_from prev (Some v # xs) = Some v # forward_from (Some v) xs"

definition forward_list :: "'a option list \<Rightarrow> 'a option list" where
  "forward_list xs = forward_from None xs"

definition backward_list :: "'a option list \<Rightarrow> 'a option list" where
  "backward_list xs = rev (forward_from None (rev xs))"

fun fill_forward_payload :: "payload \<Rightarrow> payload" where
  "fill_forward_payload (F64 xs) = F64 (forward_list xs)"
| "fill_forward_payload (I64 xs) = I64 (forward_list xs)"
| "fill_forward_payload (Str xs) = Str (forward_list xs)"
| "fill_forward_payload (Cat xs) = Cat (forward_list xs)"

fun fill_backward_payload :: "payload \<Rightarrow> payload" where
  "fill_backward_payload (F64 xs) = F64 (backward_list xs)"
| "fill_backward_payload (I64 xs) = I64 (backward_list xs)"
| "fill_backward_payload (Str xs) = Str (backward_list xs)"
| "fill_backward_payload (Cat xs) = Cat (backward_list xs)"

definition fill_null_forward :: "Series \<Rightarrow> Series" where
  "fill_null_forward s = s\<lparr>data := fill_forward_payload (data s)\<rparr>"

definition fill_null_backward :: "Series \<Rightarrow> Series" where
  "fill_null_backward s = s\<lparr>data := fill_backward_payload (data s)\<rparr>"

subsection \<open>Casting\<close>

text \<open>
  \<^verbatim>\<open>cast(dtype)\<close>, strict: a float becomes an integer by cutting off its fraction, an
  integer becomes a float unchanged, strings and categoricals exchange their labels.
  A cast between a number and a string (the engine prints or parses) is reached by
  none of the modelled transformers and is left an engine error.
\<close>

definition trunc_to_int :: "real \<Rightarrow> int" where
  "trunc_to_int x = (if 0 \<le> x then \<lfloor>x\<rfloor> else \<lceil>x\<rceil>)"

fun cast_payload :: "payload \<Rightarrow> dtype \<Rightarrow> error + payload" where
  "cast_payload (F64 xs) Float64 = Inr (F64 xs)"
| "cast_payload (F64 xs) Int64 = Inr (I64 (map (map_option trunc_to_int) xs))"
| "cast_payload (I64 xs) Int64 = Inr (I64 xs)"
| "cast_payload (I64 xs) Float64 = Inr (F64 (map (map_option of_int) xs))"
| "cast_payload (Str xs) String = Inr (Str xs)"
| "cast_payload (Str xs) Categorical = Inr (Cat xs)"
| "cast_payload (Cat xs) String = Inr (Str xs)"
| "cast_payload (Cat xs) Categorical = Inr (Cat xs)"
| "cast_payload p d = Inl PolarsError"

definition cast :: "Series \<Rightarrow> dtype \<Rightarrow> error + Series" where
  "cast s d = bnd (cast_payload (data s) d) (\<lambda>p. Inr (s\<lparr>data := p\<rparr>))"

subsection \<open>Frames\<close>

text \<open>
  A frame is the list of its columns, in order. \<^verbatim>\<open>pl.col(n)\<close> evaluated on a frame is
  the column of that name; \<^verbatim>\<open>with_columns\<close> replaces the column that has the new
  column's name, or appends it, and refuses a column of another height (the engine
  would repeat a column of height one; none arises in the modelled code).
\<close>

type_synonym DataFrame = "Series list"

fun col :: "DataFrame \<Rightarrow> string \<Rightarrow> error + Series" where
  "col [] n = Inl PolarsError"
| "col (c # cs) n = (if name c = n then Inr c else col cs n)"

fun replace_column :: "DataFrame \<Rightarrow> string \<Rightarrow> Series \<Rightarrow> DataFrame" where
  "replace_column [] n s = []"
| "replace_column (c # cs) n s = (if name c = n then s # cs else c # replace_column cs n s)"

definition columns :: "DataFrame \<Rightarrow> string list" where
  "columns df = map name df"

definition with_columns :: "DataFrame \<Rightarrow> Series \<Rightarrow> error + DataFrame" where
  "with_columns df s =
     (if list_ex (\<lambda>c. len c \<noteq> len s) df then Inl PolarsError
      else if name s \<in> set (columns df) then Inr (replace_column df (name s) s)
      else Inr (df @ [s]))"

text \<open>The columns of a frame have one height.\<close>

definition frame_of_height :: "nat \<Rightarrow> DataFrame \<Rightarrow> bool" where
  "frame_of_height h df = (df \<noteq> [] \<and> list_all (\<lambda>c. len c = h) df)"

subsection \<open>Statistics of a column\<close>

fun non_null :: "'a option list \<Rightarrow> 'a list" where
  "non_null [] = []"
| "non_null (None # xs) = non_null xs"
| "non_null (Some v # xs) = v # non_null xs"

fun list_min :: "'a::linorder list \<Rightarrow> 'a option" where
  "list_min [] = None"
| "list_min (x # xs) = Some (fold min xs x)"

fun list_max :: "'a::linorder list \<Rightarrow> 'a option" where
  "list_max [] = None"
| "list_max (x # xs) = Some (fold max xs x)"

definition list_mean :: "real list \<Rightarrow> real option" where
  "list_mean xs = (if xs = [] then None else Some (sum_list xs / real (length xs)))"

definition list_median :: "real list \<Rightarrow> real option" where
  "list_median xs =
     (let ys = sort xs; n = length ys
      in if n = 0 then None
         else if odd n then Some (ys ! (n div 2))
         else Some ((ys ! (n div 2 - 1) + ys ! (n div 2)) / 2))"

text \<open>The sample standard deviation (one degree of freedom taken off).\<close>

definition list_std :: "real list \<Rightarrow> real option" where
  "list_std xs =
     (if length xs \<le> 1 then None
      else let m = sum_list xs / real (length xs)
           in Some (sqrt (sum_list (map (\<lambda>x. (x - m)\<^sup>2) xs) / real (length xs - 1))))"

text \<open>
  \<^verbatim>\<open>Series.min()\<close>, \<^verbatim>\<open>max()\<close>, \<^verbatim>\<open>mean()\<close>, \<^verbatim>\<open>median()\<close>, \<^verbatim>\<open>std()\<close> skip the nulls and
  return \<^verbatim>\<open>None\<close> when no value is left; mean, median and standard deviation of a
  string column are \<^verbatim>\<open>None\<close>.
\<close>

fun payload_floats :: "payload \<Rightarrow> real list option" where
  "payload_floats (F64 xs) = Some (non_null xs)"
| "payload_floats (I64 xs) = Some (map of_int (non_null xs))"
| "payload_floats p = None"

fun payload_min :: "payload \<Rightarrow> lit option" where
  "payload_min (F64 xs) = map_option LFloat (list_min (non_null xs))"
| "payload_min (I64 xs) = map_option LInt (list_min (non_null xs))"
| "payload_min (Str xs) = map_option LStr (list_min (non_null xs))"
| "payload_min (Cat xs) = map_option LStr (list_min (non_null xs))"

fun payload_max :: "payload \<Rightarrow> lit option" where
  "payload_max (F64 xs) = map_option LFloat (list_max (non_null xs))"
| "payload_max (I64 xs) = map_option LInt (list_max (non_null xs))"
| "payload_max (Str xs) = map_option LStr (list_max (non_null xs))"
| "payload_max (Cat xs) = map_option LStr (list_max (non_null xs))"

definition Series_min :: "Series \<Rightarrow> lit option" where
  "Series_min s = payload_min (data s)"

definition Series_max :: "Series \<Rightarrow> lit option" where
  "Series_max s = payload_max (data s)"

definition Series_mean :: "Series \<Rightarrow> lit option" where
  "Series_mean s =
     (case payload_floats (data s) of None \<Rightarrow> None | Some xs \<Rightarrow> map_option LFloat (list_mean xs))"

definition Series_median :: "Series \<Rightarrow> lit option" where
  "Series_median s =
     (case payload_floats (data s) of None \<Rightarrow> None | Some xs \<Rightarrow> map_option LFloat (list_median xs))"

definition Series_std :: "Series \<Rightarrow> lit option" where
  "Series_std s =
     (case payload_floats (data s) of None \<Rightarrow> None | Some xs \<Rightarrow> map_option LFloat (list_std xs))"

subsection \<open>Arithmetic on columns\<close>

text \<open>
  Arithmetic on a numeric column is done in floats here (every use below ends in a
  true division); on a string column it is an engine error. A division of a non-null
  entry by zero is the outcome \<open>NonFinite\<close>.
\<close>

fun to_float :: "payload \<Rightarrow> error + real option list" where
  "to_float (F64 xs) = Inr xs"
| "to_float (I64 xs) = Inr (map (map_option of_int) xs)"
| "to_float p = Inl PolarsError"


definition div_by :: "real \<Rightarrow> real option list \<Rightarrow> error + real option list" where
  "div_by d xs =
     (if d = 0 \<and> non_null xs \<noteq> [] then Inl NonFinite
      else Inr (map (map_option (\<lambda>x. x / d)) xs))"

fun lit_num :: "lit \<Rightarrow> real option" where
  "lit_num (LInt i) = Some (of_int i)"
| "lit_num (LFloat x) = Some x"
| "lit_num (LStr s) = None"

subsection \<open>Differences\<close>

text \<open>
  \<^verbatim>\<open>diff(n)\<close>: each entry minus the entry \<open>n\<close> places before it, null where either is
  missing; the data type of a signed numeric column is kept, a string column is an
  engine error. \<^verbatim>\<open>head(n)\<close>: the first \<open>n\<close> entries (all but the last \<open>-n\<close> for a
  negative \<open>n\<close>).
\<close>

definition diff_list :: "int \<Rightarrow> 'a::minus option list \<Rightarrow> 'a option list" where
  "diff_list n xs =
     map (\<lambda>(x, y). case (x, y) of (Some a, Some b) \<Rightarrow> Some (a - b) | _ \<Rightarrow> None)
       (zip xs (shift_list n xs))"

fun diff_payload :: "int \<Rightarrow> payload \<Rightarrow> error + payload" where
  "diff_payload n (F64 xs) = Inr (F64 (diff_list n xs))"
| "diff_payload n (I64 xs) = Inr (I64 (diff_list n xs))"
| "diff_payload n p = Inl PolarsError"

definition diff :: "Series \<Rightarrow> int \<Rightarrow> error + Series" where
  "diff s n = bnd (diff_payload n (data s)) (\<lambda>p. Inr (s\<lparr>data := p\<rparr>))"

definition head_list :: "int \<Rightarrow> 'a list \<Rightarrow> 'a list" where
  "head_list n xs = (if 0 \<le> n then take (nat n) xs else take (length xs - nat (- n)) xs)"

fun head_payload :: "int \<Rightarrow> payload \<Rightarrow> payload" where
  "head_payload n (F64 xs) = F64 (head_list n xs)"
| "head_payload n (I64 xs) = I64 (head_list n xs)"
| "head_payload n (Str xs) = Str (head_list n xs)"
| "head_payload n (Cat xs) = Cat (head_list n xs)"

definition head :: "Series \<Rightarrow> int \<Rightarrow> Series" where
  "head s n = s\<lparr>data := head_payload n (data s)\<rparr>"

subsection \<open>Rolling statistics\<close>

text \<open>
  The window of entry \<open>i\<close> holds the \<open>w\<close> entries that end at \<open>i\<close>, or, centred, the
  entries from \<open>i - w div 2\<close> up to \<open>i + (w + 1) div 2\<close> (exclusive), cut at the ends of
  the column. The statistic is taken over the non-null entries of the window and is
  null when there are fewer than \<open>min_samples\<close> of them. The engine refuses a window
  size below one and a \<open>min_samples\<close> outside \<open>1..w\<close>. Minimum and maximum keep the data
  type, mean and median give floats; a string column is an engine error.
\<close>

definition window :: "nat \<Rightarrow> bool \<Rightarrow> nat \<Rightarrow> 'a list \<Rightarrow> 'a list" where
  "window w center i xs =
     (if center
      then (let a = i - w div 2; b = min (length xs) (i + (w + 1) div 2)
            in take (b - a) (drop a xs))
      else (let a = Suc i - w in take (Suc i - a) (drop a xs)))"

definition rolling_list ::
  "('a list \<Rightarrow> 'b option) \<Rightarrow> nat \<Rightarrow> nat \<Rightarrow> bool \<Rightarrow> 'a option list \<Rightarrow> 'b option list" where
  "rolling_list f w m center xs =
     map (\<lambda>i. let win = non_null (window w center i xs)
               in if m \<le> length win then f win else None)
       [0..<length xs]"

definition rolling_args_ok :: "int \<Rightarrow> int \<Rightarrow> bool" where
  "rolling_args_ok w m = (1 \<le> w \<and> 1 \<le> m \<and> m \<le> w)"

fun rolling_min_payload :: "nat \<Rightarrow> nat \<Rightarrow> bool \<Rightarrow> payload \<Rightarrow> error + payload" where
  "rolling_min_payload w m c (F64 xs) = Inr (F64 (rolling_list list_min w m c xs))"
| "rolling_min_payload w m c (I64 xs) = Inr (I64 (rolling_list list_min w m c xs))"
| "rolling_min_payload w m c p = Inl PolarsError"

fun rolling_max_payload :: "nat \<Rightarrow> nat \<Rightarrow> bool \<Rightarrow> payload \<Rightarrow> error + payload" where
  "rolling_max_payload w m c (F64 xs) = Inr (F64 (rolling_list list_max w m c xs))"
| "rolling_max_payload w m c (I64 xs) = Inr (I64 (rolling_list list_max w m c xs))"
| "rolling_max_payload w m c p = Inl PolarsError"

definition rolling_mean_payload :: "nat \<Rightarrow> nat \<Rightarrow> bool \<Rightarrow> payload \<Rightarrow> error + payload" where
  "rolling_mean_payload w m c p =
     bnd (to_float p) (\<lambda>xs. Inr (F64 (rolling_list list_mean w m c xs)))"

definition rolling_median_payload :: "nat \<Rightarrow> nat \<Rightarrow> bool \<Rightarrow> payload \<Rightarrow> error + payload" where
  "rolling_median_payload w m c p =
     bnd (to_float p) (\<lambda>xs. Inr (F64 (rolling_list list_median w m c xs)))"

definition rolling ::
  "(nat \<Rightarrow> nat \<Rightarrow> bool \<Rightarrow> payload \<Rightarrow> error + payload) \<Rightarrow> Series \<Rightarrow> int \<Rightarrow> int \<Rightarrow> bool
     \<Rightarrow> error + Series" where
  "rolling f s w m c =
     (if \<not> rolling_args_ok w m then Inl PolarsError
      else bnd (f (nat w) (nat m) c (data s)) (\<lambda>p. Inr (s\<lparr>data := p\<rparr>)))"

definition rolling_min :: "Series \<Rightarrow> int \<Rightarrow> int \<Rightarrow> bool \<Rightarrow> error + Series" where
  "rolling_min = rolling rolling_min_payload"

definition rolling_max :: "Series \<Rightarrow> int \<Rightarrow> int \<Rightarrow> bool \<Rightarrow> error + Series" where
  "rolling_max = rolling rolling_max_payload"

definition rolling_mean :: "Series \<Rightarrow> int \<Rightarrow> int \<Rightarrow> bool \<Rightarrow> error + Series" where
  "rolling_mean = rolling rolling_mean_payload"

definition rolling_median :: "Series \<Rightarrow> int \<Rightarrow> int \<Rightarrow> bool \<Rightarrow> error + Series" where
  "rolling_median = rolling rolling_median_payload"

subsection \<open>Coalescing and interpolation\<close>

text \<open>
  \<^verbatim>\<open>coalesce(a, b)\<close>: entry by entry the first that is not null, in the common
  supertype, under the name of \<open>a\<close>. \<^verbatim>\<open>interpolate("linear")\<close>: a null between two
  non-null entries takes the value on the line between them; nulls before the first
  and after the last non-null entry stay; the result is a float column.
\<close>

definition coalesce_list :: "'a option list \<Rightarrow> 'a option list \<Rightarrow> 'a option list" where
  "coalesce_list xs ys = map (\<lambda>(x, y). case x of None \<Rightarrow> y | Some a \<Rightarrow> Some a) (zip xs ys)"

fun coalesce_payload :: "payload \<Rightarrow> payload \<Rightarrow> error + payload" where
  "coalesce_payload (F64 xs) (F64 ys) = Inr (F64 (coalesce_list xs ys))"
| "coalesce_payload (I64 xs) (I64 ys) = Inr (I64 (coalesce_list xs ys))"
| "coalesce_payload (I64 xs) (F64 ys) =
     Inr (F64 (coalesce_list (map (map_option of_int) xs) ys))"
| "coalesce_payload (F64 xs) (I64 ys) =
     Inr (F64 (coalesce_list xs (map (map_option of_int) ys)))"
| "coalesce_payload (Str xs) (Str ys) = Inr (Str (coalesce_list xs ys))"
| "coalesce_payload (Cat xs) (Cat ys) = Inr (Cat (coalesce_list xs ys))"
| "coalesce_payload p q = Inl PolarsError"

definition coalesce :: "Series \<Rightarrow> Series \<Rightarrow> error + Series" where
  "coalesce a b =
     (if len a \<noteq> len b then Inl PolarsError
      else bnd (coalesce_payload (data a) (data b)) (\<lambda>p. Inr (a\<lparr>data := p\<rparr>)))"

fun next_some :: "'a option list \<Rightarrow> (nat \<times> 'a) option" where
  "next_some [] = None"
| "next_some (None # xs) = map_option (\<lambda>(k, v). (Suc k, v)) (next_some xs)"
| "next_some (Some v # xs) = Some (0, v)"

text \<open>\<open>prev\<close> is the last non-null value and how many places back it stands.\<close>

fun interpolate_from :: "(nat \<times> real) option \<Rightarrow> real option list \<Rightarrow> real option list" where
  "interpolate_from prev [] = []"
| "interpolate_from prev (Some v # xs) = Some v # interpolate_from (Some (1, v)) xs"
| "interpolate_from prev (None # xs) =
     (case (prev, next_some xs) of
        (Some (d, a), Some (k, b)) \<Rightarrow> Some (a + (b - a) * real d / real (d + k + 1))
      | _ \<Rightarrow> None)
     # interpolate_from (map_option (\<lambda>(d, a). (Suc d, a)) prev) xs"

definition interpolate :: "Series \<Rightarrow> error + Series" where
  "interpolate s =
     bnd (to_float (data s)) (\<lambda>xs. Inr (s\<lparr>data := F64 (interpolate_from None xs)\<rparr>))"

section \<open>Strategies (types.py)\<close>

text \<open>
  Modelled from the spec: \<^verbatim>\<open>types.py\<close> is absent. The members are the ones
  \<^verbatim>\<open>imputers.py\<close> matches on (\<open>MINIMUM\<close> and \<open>MAXIMUM\<close> are \<^verbatim>\<open>Strategy.MIN\<close> and
  \<^verbatim>\<open>Strategy.MAX\<close>, whose names HOL's syntax reserves); the rolling strategies are
  string enumerations whose values the docstring of \<^verbatim>\<open>RollingImputer\<close> lists
  (\<^verbatim>\<open>'rolling_median'\<close> and so on).
\<close>

datatype Strategy =
    FORWARD | BACKWARD | MEDIAN | MEAN | MINIMUM | MAXIMUM | ZERO | ONE

datatype RollingStrategy = ROLLING_MIN | ROLLING_MAX | ROLLING_MEAN | ROLLING_MEDIAN

fun RollingStrategy_value :: "RollingStrategy \<Rightarrow> string" where
  "RollingStrategy_value ROLLING_MIN = ''rolling_min''"
| "RollingStrategy_value ROLLING_MAX = ''rolling_max''"
| "RollingStrategy_value ROLLING_MEAN = ''rolling_mean''"
| "RollingStrategy_value ROLLING_MEDIAN = ''rolling_median''"

section \<open>Imputer and RollingImputer (imputers.py)\<close>

record Imputer =
  imp_value :: "lit option"
  imp_strategy :: "Strategy option"
  fitted_value :: "lit option"


definition string_like :: "dtype \<Rightarrow> bool" where
  "string_like d = (d = String \<or> d = Categorical)"

fun Imputer_fit :: "Imputer \<Rightarrow> Series \<Rightarrow> error + Imputer" where
  "Imputer_fit imp s =
     (case imp_strategy imp of
        None \<Rightarrow> Inr imp
      | Some FORWARD \<Rightarrow> Inr imp
      | Some BACKWARD \<Rightarrow> Inr imp
      | Some MEDIAN \<Rightarrow> Inr (imp\<lparr>fitted_value := Series_median s\<rparr>)
      | Some MEAN \<Rightarrow> Inr (imp\<lparr>fitted_value := Series_mean s\<rparr>)
      | Some MINIMUM \<Rightarrow> Inr (imp\<lparr>fitted_value := Series_min s\<rparr>)
      | Some MAXIMUM \<Rightarrow> Inr (imp\<lparr>fitted_value := Series_max s\<rparr>)
      | Some ZERO \<Rightarrow>
          Inr (imp\<lparr>fitted_value := Some (if string_like (dtype s) then LStr ''0'' else LInt 0)\<rparr>)
      | Some ONE \<Rightarrow>
          Inr (imp\<lparr>fitted_value := Some (if string_like (dtype s) then LStr ''1'' else LInt 1)\<rparr>))"

definition Imputer_transform :: "Imputer \<Rightarrow> Series \<Rightarrow> error + Series" where
  "Imputer_transform imp s =
     bnd (case imp_value imp of
            Some fill_val \<Rightarrow>
              bnd (col [s] (name s)) (\<lambda>c. bnd (fill_null c fill_val) (with_columns [s]))
          | None \<Rightarrow>
              if imp_strategy imp = Some FORWARD then
                bnd (col [s] (name s)) (\<lambda>c. with_columns [s] (fill_null_forward c))
              else if imp_strategy imp = Some BACKWARD then
                bnd (col [s] (name s)) (\<lambda>c. with_columns [s] (fill_null_backward c))
              else
                (case fitted_value imp of
                   None \<Rightarrow> Inl (ValueError HasNotBeenFitted)
                 | Some fv \<Rightarrow>
                     bnd (col [s] (name s)) (\<lambda>c. bnd (fill_null c fv) (with_columns [s]))))
       (\<lambda>temp_df. bnd (col temp_df (name s)) (\<lambda>c. cast c (dtype s)))"

record RollingImputer =
  ri_strategy :: RollingStrategy
  ri_window_size :: int
  ri_weights :: "real list option"
  ri_min_samples :: int
  ri_center :: bool


definition RollingImputer_fit :: "RollingImputer \<Rightarrow> Series \<Rightarrow> error + RollingImputer" where
  "RollingImputer_fit r s = Inr r"

fun rolling_of :: "RollingStrategy \<Rightarrow> Series \<Rightarrow> int \<Rightarrow> int \<Rightarrow> bool \<Rightarrow> error + Series" where
  "rolling_of ROLLING_MIN = rolling_min"
| "rolling_of ROLLING_MAX = rolling_max"
| "rolling_of ROLLING_MEAN = rolling_mean"
| "rolling_of ROLLING_MEDIAN = rolling_median"

definition RollingImputer_transform :: "RollingImputer \<Rightarrow> Series \<Rightarrow> error + Series" where
  "RollingImputer_transform r s =
     (let stat = ''stat''
      in bnd (bnd (col [s] (name s)) (\<lambda>c.
              bnd (rolling_of (ri_strategy r) c (ri_window_size r) (ri_min_samples r) (ri_center r))
                (\<lambda>st. with_columns [s] (alias_col stat st))))
           (\<lambda>temp_df.
              bnd (bnd (col temp_df (name s)) (\<lambda>a.
                   bnd (col temp_df stat) (\<lambda>b.
                   bnd (coalesce a b) (\<lambda>c.
                   bnd (interpolate c) (\<lambda>c.
                   bnd (fill_null (fill_null_forward c) (LInt 0)) (\<lambda>c.
                   bnd (cast c (dtype s)) (\<lambda>c.
                   with_columns temp_df (alias_col (name s) c))))))))
                (\<lambda>temp_df. col temp_df (name s))))"

section \<open>MinMaxScaler and StandardScaler (scalers.py)\<close>

text \<open>
  \<^verbatim>\<open>super().__init__()\<close> is in the absent \<^verbatim>\<open>base.py\<close>; \<^verbatim>\<open>transform\<close> reads
  \<^verbatim>\<open>is_fitted\<close> before any \<^verbatim>\<open>fit\<close>, so the base constructor is taken to set it to
  false (the spec: constructed means unfitted).
\<close>

record MinMaxScaler =
  mm_min :: "lit option"
  mm_max :: "lit option"
  mm_is_fitted :: bool

definition MinMaxScaler_init :: MinMaxScaler where
  "MinMaxScaler_init = \<lparr>mm_min = None, mm_max = None, mm_is_fitted = False\<rparr>"

definition MinMaxScaler_fit :: "MinMaxScaler \<Rightarrow> Series \<Rightarrow> error + MinMaxScaler" where
  "MinMaxScaler_fit m s =
     (let m1 = m\<lparr>mm_min := Series_min s\<rparr>;
          m2 = m1\<lparr>mm_max := Series_max s\<rparr>;
          m3 = m2\<lparr>mm_is_fitted := (mm_min m2 \<noteq> None \<and> mm_max m2 \<noteq> None)\<rparr>
      in if \<not> mm_is_fitted m3 then Inl (RuntimeError CouldNotBeFitted) else Inr m3)"

text \<open>
  \<^verbatim>\<open>self.max - self.min + 1e-8\<close> is computed by Python on the two stored scalars: a
  string or \<^verbatim>\<open>None\<close> among them is a \<^verbatim>\<open>TypeError\<close>. The result is the lower bound and
  the denominator.
\<close>

definition minmax_denominator :: "lit option \<Rightarrow> lit option \<Rightarrow> error + real \<times> real" where
  "minmax_denominator mn mx =
     (case (mn, mx) of
        (Some a, Some b) \<Rightarrow>
          (case (lit_num a, lit_num b) of
             (Some lo, Some hi) \<Rightarrow> Inr (lo, hi - lo + 1 / 10 ^ 8)
           | _ \<Rightarrow> Inl TypeError)
      | _ \<Rightarrow> Inl TypeError)"

text \<open>
  The body of \<^verbatim>\<open>transform\<close> after its guard, the same text in the three copies of
  the class: \<^verbatim>\<open>when(col.is_null()).then(None).otherwise((col - min) / (max - min + 1e-8))\<close>,
  cast to the input's type, under the input's name.
\<close>

definition minmax_scale :: "lit option \<Rightarrow> lit option \<Rightarrow> Series \<Rightarrow> error + Series" where
  "minmax_scale mn mx s =
     bnd (minmax_denominator mn mx) (\<lambda>(lo, den).
     bnd (bnd (col [s] (name s)) (\<lambda>c.
          bnd (to_float (data c)) (\<lambda>xs.
          bnd (div_by den (map (map_option (\<lambda>x. x - lo)) xs)) (\<lambda>ys.
          bnd (cast (c\<lparr>data := F64 ys\<rparr>) (dtype s)) (\<lambda>e.
          with_columns [s] (alias_col (name s) e))))))
       (\<lambda>temp_df. col temp_df (name s)))"

definition MinMaxScaler_transform :: "MinMaxScaler \<Rightarrow> Series \<Rightarrow> error + Series" where
  "MinMaxScaler_transform m s =
     (if \<not> mm_is_fitted m then Inl (ValueError HasNotBeenFitted)
      else minmax_scale (mm_min m) (mm_max m) s)"

text \<open>
  The older copies of the class (\<^verbatim>\<open>polars_utils/column_transformer/scalers.py\<close> and the
  end of \<^verbatim>\<open>imputers.py\<close>) have no \<^verbatim>\<open>is_fitted\<close>: \<^verbatim>\<open>fit\<close> stores what it finds and
  \<^verbatim>\<open>transform\<close> tests the two fields. Their \<^verbatim>\<open>print\<close> calls are left out.
\<close>

record MinMaxScaler_legacy =
  lg_min :: "lit option"
  lg_max :: "lit option"

definition MinMaxScaler_legacy_init :: MinMaxScaler_legacy where
  "MinMaxScaler_legacy_init = \<lparr>lg_min = None, lg_max = None\<rparr>"

definition MinMaxScaler_legacy_fit ::
  "MinMaxScaler_legacy \<Rightarrow> Series \<Rightarrow> error + MinMaxScaler_legacy" where
  "MinMaxScaler_legacy_fit m s = Inr (m\<lparr>lg_min := Series_min s, lg_max := Series_max s\<rparr>)"

definition MinMaxScaler_legacy_transform :: "MinMaxScaler_legacy \<Rightarrow> Series \<Rightarrow> error + Series" where
  "MinMaxScaler_legacy_transform m s =
     (if \<not> (lg_min m \<noteq> None \<and> lg_max m \<noteq> None) then Inl (ValueError HasNotBeenFitted)
      else minmax_scale (lg_min m) (lg_max m) s)"

record StandardScaler =
  ss_mean :: "lit option"
  ss_std :: "lit option"
  ss_is_fitted :: bool


definition StandardScaler_fit :: "StandardScaler \<Rightarrow> Series \<Rightarrow> error + StandardScaler" where
  "StandardScaler_fit m s =
     (let m1 = m\<lparr>ss_mean := Series_mean s\<rparr>;
          m2 = m1\<lparr>ss_std := Series_std s\<rparr>;
          m3 = m2\<lparr>ss_is_fitted := (ss_mean m2 \<noteq> None \<and> ss_std m2 \<noteq> None)\<rparr>
      in if \<not> ss_is_fitted m3 then Inl (RuntimeError CouldNotBeFitted) else Inr m3)"

text \<open>
  \<^verbatim>\<open>(col - mean) / std\<close> is arithmetic of the engine with two literals. A \<^verbatim>\<open>None\<close>
  among them (which no \<^verbatim>\<open>fit\<close> leaves behind in a fitted scaler) is the engine's null
  literal and makes every entry null.
\<close>

definition standard_expr :: "lit option \<Rightarrow> lit option \<Rightarrow> Series \<Rightarrow> error + Series" where
  "standard_expr mean std c =
     bnd (to_float (data c)) (\<lambda>xs.
       case (mean, std) of
         (Some a, Some b) \<Rightarrow>
           (case (lit_num a, lit_num b) of
              (Some mu, Some sd) \<Rightarrow>
                bnd (div_by sd (map (map_option (\<lambda>x. x - mu)) xs))
                  (\<lambda>ys. Inr (c\<lparr>data := F64 ys\<rparr>))
            | _ \<Rightarrow> Inl PolarsError)
       | _ \<Rightarrow> Inr (c\<lparr>data := F64 (map (\<lambda>x. None) xs)\<rparr>))"

definition StandardScaler_transform :: "StandardScaler \<Rightarrow> Series \<Rightarrow> error + Series" where
  "StandardScaler_transform m s =
     (if \<not> ss_is_fitted m then Inl (ValueError HasNotBeenFitted)
      else bnd (bnd (col [s] (name s)) (\<lambda>c.
                bnd (standard_expr (ss_mean m) (ss_std m) c) (\<lambda>e.
                bnd (cast e (dtype s)) (\<lambda>e.
                with_columns [s] (alias_col (name s) e)))))
             (\<lambda>temp_df. col temp_df (name s)))"

section \<open>DiffTransformer (transformers.py)\<close>

record DiffTransformer =
  order :: int
  periods :: int
  initial_values :: "Series list"
  diff_is_fitted :: bool

definition DiffTransformer_init :: "int \<Rightarrow> int \<Rightarrow> error + DiffTransformer" where
  "DiffTransformer_init ord per =
     (if ord < 1 then Inl (ValueError BadArguments)
      else if per < 1 then Inl (ValueError BadArguments)
      else Inr \<lparr>order = ord, periods = per, initial_values = [], diff_is_fitted = False\<rparr>)"

text \<open>The loops \<^verbatim>\<open>for _ in range(self.order)\<close>, by the number of rounds left.\<close>

fun fit_rounds :: "nat \<Rightarrow> int \<Rightarrow> Series list \<Rightarrow> Series \<Rightarrow> error + Series list" where
  "fit_rounds 0 per initial current = Inr initial"
| "fit_rounds (Suc k) per initial current =
     bnd (diff current per) (\<lambda>next. fit_rounds k per (initial @ [head current per]) next)"

fun diff_rounds :: "nat \<Rightarrow> int \<Rightarrow> Series \<Rightarrow> error + Series" where
  "diff_rounds 0 per result = Inr result"
| "diff_rounds (Suc k) per result = bnd (diff result per) (diff_rounds k per)"

definition DiffTransformer_fit :: "DiffTransformer \<Rightarrow> Series \<Rightarrow> error + DiffTransformer" where
  "DiffTransformer_fit t s =
     bnd (fit_rounds (nat (order t)) (periods t) [] s)
       (\<lambda>iv. Inr (t\<lparr>initial_values := iv, diff_is_fitted := True\<rparr>))"

definition DiffTransformer_transform :: "DiffTransformer \<Rightarrow> Series \<Rightarrow> error + Series" where
  "DiffTransformer_transform t s =
     (if \<not> diff_is_fitted t then Inl (ValueError HasNotBeenFitted)
      else diff_rounds (nat (order t)) (periods t) s)"

section \<open>Smoother and RollingSmoother (smoothers.py)\<close>

text \<open>Entry-wise arithmetic of two columns of one frame; a null operand gives null.\<close>

definition map2_opt ::
  "(real \<Rightarrow> real \<Rightarrow> real) \<Rightarrow> real option list \<Rightarrow> real option list \<Rightarrow> real option list" where
  "map2_opt f xs ys =
     map (\<lambda>(x, y). case (x, y) of (Some a, Some b) \<Rightarrow> Some (f a b) | _ \<Rightarrow> None) (zip xs ys)"

definition div_lists :: "real option list \<Rightarrow> real option list \<Rightarrow> error + real option list" where
  "div_lists xs ds =
     (if list_ex (\<lambda>(x, d). x \<noteq> None \<and> d = Some 0) (zip xs ds) then Inl NonFinite
      else Inr (map2_opt (\<lambda>a b. a / b) xs ds))"

text \<open>
  \<^verbatim>\<open>when(z >= max_z).then(hi).when(z <= -max_z).then(lo).otherwise(x)\<close>, entry by entry:
  a null \<open>z\<close> satisfies neither condition.
\<close>

definition when_then_list ::
  "real \<Rightarrow> real option list \<Rightarrow> real option list \<Rightarrow> real option list \<Rightarrow> real option list
     \<Rightarrow> real option list" where
  "when_then_list max_z zs his los xs =
     map (\<lambda>(z, hi, lo, x).
            case z of None \<Rightarrow> x
            | Some v \<Rightarrow> if max_z \<le> v then hi else if v \<le> - max_z then lo else x)
       (zip zs (zip his (zip los xs)))"

record Smoother =
  sm_max_zscore :: real
  sm_zero_threshold :: real
  sm_fill_value :: real
  sm_median :: "lit option"
  sm_mad :: "lit option"

definition Smoother_init :: "real \<Rightarrow> real \<Rightarrow> real \<Rightarrow> Smoother" where
  "Smoother_init max_zscore zero_threshold fill_value =
     \<lparr>sm_max_zscore = max_zscore, sm_zero_threshold = zero_threshold,
      sm_fill_value = fill_value, sm_median = None, sm_mad = None\<rparr>"

text \<open>
  \<^verbatim>\<open>(s - self.median).abs().median()\<close>: on a string column the subtraction is an engine
  error; with a \<^verbatim>\<open>None\<close> median (a column without values) every difference is null and
  so is their median. \<^verbatim>\<open>or 0\<close> turns a missing or zero result into the integer zero;
  the stored scalar is kept as a float here, which the arithmetic of \<^verbatim>\<open>transform\<close>
  does not tell apart.
\<close>

definition abs_dev_median :: "Series \<Rightarrow> lit option \<Rightarrow> error + real option" where
  "abs_dev_median s med =
     bnd (to_float (data s)) (\<lambda>xs.
       case med of
         None \<Rightarrow> Inr None
       | Some l \<Rightarrow>
           (case lit_num l of
              None \<Rightarrow> Inl PolarsError
            | Some m \<Rightarrow> Inr (list_median (map (\<lambda>x. \<bar>x - m\<bar>) (non_null xs)))))"

definition Smoother_fit :: "Smoother \<Rightarrow> Series \<Rightarrow> error + Smoother" where
  "Smoother_fit sm s =
     (let sm1 = sm\<lparr>sm_median := Series_median s\<rparr>
      in bnd (abs_dev_median s (sm_median sm1)) (\<lambda>r.
           let mad = (case r of None \<Rightarrow> 0 | Some x \<Rightarrow> x);
               mad = (if mad < sm_zero_threshold sm1 then sm_fill_value sm1 else mad)
           in Inr (sm1\<lparr>sm_mad := Some (LFloat mad)\<rparr>)))"

definition Smoother_transform :: "Smoother \<Rightarrow> Series \<Rightarrow> error + Series" where
  "Smoother_transform sm s =
     (case (sm_median sm, sm_mad sm) of
        (Some med_l, Some mad_l) \<Rightarrow>
          (case (lit_num med_l, lit_num mad_l) of
             (Some med, Some mad) \<Rightarrow>
               (let z_score = ''z_score''; max_z = sm_max_zscore sm
                in bnd (bnd (col [s] (name s)) (\<lambda>c.
                        bnd (to_float (data c)) (\<lambda>xs.
                        bnd (div_by (mad * (14826 / 10000) + 1 / 10 ^ 8)
                               (map (map_option (\<lambda>x. x - med)) xs)) (\<lambda>zs.
                        with_columns [s] (alias_col z_score (c\<lparr>data := F64 zs\<rparr>))))))
                     (\<lambda>df1.
                        bnd (bnd (col df1 z_score) (\<lambda>z.
                             bnd (to_float (data z)) (\<lambda>zs.
                             bnd (col df1 (name s)) (\<lambda>c.
                             bnd (to_float (data c)) (\<lambda>xs.
                             bnd (cast (c\<lparr>data := F64 (when_then_list max_z zs
                                          (map (\<lambda>x. Some (med + max_z * mad)) xs)
                                          (map (\<lambda>x. Some (med - max_z * mad)) xs) xs)\<rparr>)
                                    (dtype s)) (\<lambda>e.
                             with_columns df1 (alias_col (name s) e)))))))
                          (\<lambda>temp_df. col temp_df (name s))))
           | _ \<Rightarrow> Inl TypeError)
      | _ \<Rightarrow> Inl (ValueError HasNotBeenFitted))"

text \<open>
  \<^verbatim>\<open>select(names)\<close>: the named columns in the order asked for; an unknown or repeated
  name is an engine error.
\<close>

fun select_cols :: "DataFrame \<Rightarrow> string list \<Rightarrow> error + DataFrame" where
  "select_cols df [] = Inr []"
| "select_cols df (n # ns) =
     bnd (col df n) (\<lambda>c. bnd (select_cols df ns) (\<lambda>cs. Inr (c # cs)))"

definition select :: "DataFrame \<Rightarrow> string list \<Rightarrow> error + DataFrame" where
  "select df ns = (if \<not> distinct ns then Inl PolarsError else select_cols df ns)"

definition truthy :: "string option \<Rightarrow> bool" where
  "truthy n = (case n of None \<Rightarrow> False | Some v \<Rightarrow> v \<noteq> [])"

text \<open>
  \<^verbatim>\<open>rolling_zscore\<close>. Its third \<^verbatim>\<open>with_columns\<close> gives the \<^verbatim>\<open>when/then/otherwise\<close>
  expression no alias; the engine names such a column after the first \<^verbatim>\<open>then\<close>
  branch, here the literal \<^verbatim>\<open>fill_value\<close>, that is \<^verbatim>\<open>"literal"\<close>. The \<^verbatim>\<open>mad\<close> column
  is therefore left as it was, and the final \<^verbatim>\<open>select\<close> drops the new column.
\<close>

definition rolling_zscore ::
  "DataFrame \<Rightarrow> string \<Rightarrow> int \<Rightarrow> int \<Rightarrow> bool \<Rightarrow> real \<Rightarrow> real \<Rightarrow> string \<Rightarrow> string option
     \<Rightarrow> string option \<Rightarrow> error + DataFrame" where
  "rolling_zscore df cl window_size min_samples center zero_threshold fill_value als
       with_median with_mad =
     (let mad = ''mad'';
          cols = columns df @ [als]
                 @ (if truthy with_median then [the with_median] else [])
                 @ (if truthy with_mad then [the with_mad] else []);
          with_median = (if truthy with_median then the with_median
                         else RollingStrategy_value ROLLING_MEDIAN)
      in bnd (bnd (col df cl) (\<lambda>c.
              bnd (rolling_median c window_size min_samples center) (\<lambda>r.
              with_columns df (alias_col with_median r))))
        (\<lambda>df1.
         bnd (bnd (col df1 cl) (\<lambda>c.
              bnd (to_float (data c)) (\<lambda>xs.
              bnd (col df1 with_median) (\<lambda>md.
              bnd (to_float (data md)) (\<lambda>ms.
              bnd (rolling_median (c\<lparr>data := F64 (map (map_option abs) (map2_opt (\<lambda>a b. a - b) xs ms))\<rparr>)
                     window_size min_samples center) (\<lambda>r.
              with_columns df1 (alias_col mad r)))))))
        (\<lambda>df2.
         bnd (bnd (col df2 mad) (\<lambda>c.
              bnd (to_float (data c)) (\<lambda>xs.
              with_columns df2
                \<lparr>name = ''literal'',
                 data = F64 (map (\<lambda>x. case x of None \<Rightarrow> None
                                   | Some v \<Rightarrow> if - zero_threshold \<le> v \<and> v \<le> zero_threshold
                                              then Some fill_value else Some v) xs)\<rparr>)))
        (\<lambda>df3.
         bnd (bnd (col df3 cl) (\<lambda>c.
              bnd (to_float (data c)) (\<lambda>xs.
              bnd (col df3 with_median) (\<lambda>md.
              bnd (to_float (data md)) (\<lambda>ms.
              bnd (col df3 mad) (\<lambda>ma.
              bnd (to_float (data ma)) (\<lambda>as.
              bnd (div_lists (map2_opt (\<lambda>a b. a - b) xs ms)
                     (map (map_option (\<lambda>a. a * (14826 / 10000) + 1 / 10 ^ 8)) as)) (\<lambda>zs.
              with_columns df3 (alias_col als (c\<lparr>data := F64 zs\<rparr>))))))))))
        (\<lambda>df4. select df4 cols)))))"

record RollingSmoother =
  rs_window_size :: int
  rs_min_samples :: int
  rs_max_zscore :: real
  rs_zero_threshold :: real
  rs_fill_value :: real
  rs_center :: bool

definition RollingSmoother_init ::
  "int \<Rightarrow> int \<Rightarrow> real \<Rightarrow> real \<Rightarrow> real \<Rightarrow> bool \<Rightarrow> RollingSmoother" where
  "RollingSmoother_init window_size min_samples max_zscore zero_threshold fill_value center =
     \<lparr>rs_window_size = window_size,
      rs_min_samples = (if min_samples = 0 then window_size else min_samples),
      rs_max_zscore = max_zscore, rs_zero_threshold = zero_threshold,
      rs_fill_value = fill_value, rs_center = center\<rparr>"

definition RollingSmoother_fit :: "RollingSmoother \<Rightarrow> Series \<Rightarrow> error + RollingSmoother" where
  "RollingSmoother_fit r s = Inr r"

definition RollingSmoother_transform :: "RollingSmoother \<Rightarrow> Series \<Rightarrow> error + Series" where
  "RollingSmoother_transform r s =
     (let mad = ''mad''; z_score = ''z_score''; max_z = rs_max_zscore r;
          median = RollingStrategy_value ROLLING_MEDIAN
      in bnd (rolling_zscore [s] (name s) (rs_window_size r) (rs_min_samples r) (rs_center r)
                (rs_zero_threshold r) (rs_fill_value r) z_score (Some median) (Some mad))
        (\<lambda>df.
         bnd (bnd (col df z_score) (\<lambda>z.
              bnd (to_float (data z)) (\<lambda>zs.
              bnd (col df median) (\<lambda>md.
              bnd (to_float (data md)) (\<lambda>ms.
              bnd (col df mad) (\<lambda>ma.
              bnd (to_float (data ma)) (\<lambda>as.
              bnd (col df (name s)) (\<lambda>c.
              bnd (to_float (data c)) (\<lambda>xs.
              bnd (cast (c\<lparr>data := F64 (when_then_list max_z zs
                           (map2_opt (\<lambda>m a. m + max_z * a) ms as)
                           (map2_opt (\<lambda>m a. m - max_z * a) ms as) xs)\<rparr>)
                     (dtype s)) (\<lambda>e.
              with_columns df (alias_col (name s) e)))))))))))
        (\<lambda>temp_df. col temp_df (name s))))"

section \<open>LagTransformer (transformers.py)\<close>

text \<open>
  \<^verbatim>\<open>lags: list[int] | int\<close> is the constructor's argument;
  \<^verbatim>\<open>super().__init__()\<close> (in the absent \<^verbatim>\<open>base.py\<close>) leaves \<^verbatim>\<open>is_fitted\<close> false and
  the next line of the constructor sets it.
\<close>

datatype lags_arg = Lags_int int | Lags_list "int list"

record LagTransformer =
  lags :: "int list"
  lag_fill_value :: "lit option"
  lag_is_fitted :: bool

definition LagTransformer_init :: "lags_arg \<Rightarrow> lit option \<Rightarrow> LagTransformer" where
  "LagTransformer_init a fv =
     \<lparr>lags = (case a of Lags_int n \<Rightarrow> [n] | Lags_list l \<Rightarrow> l),
      lag_fill_value = fv,
      lag_is_fitted = False\<rparr> \<lparr>lag_is_fitted := True\<rparr>"

definition LagTransformer_fit :: "LagTransformer \<Rightarrow> Series \<Rightarrow> error + LagTransformer" where
  "LagTransformer_fit t s = Inr (t\<lparr>lag_is_fitted := True\<rparr>)"

definition LagTransformer_transform :: "LagTransformer \<Rightarrow> Series \<Rightarrow> error + Series" where
  "LagTransformer_transform t s =
     (if \<not> lag_is_fitted t then Inl (ValueError HasNotBeenFitted)
      else case lags t of
        [] \<Rightarrow> Inl IndexError
      | lag # _ \<Rightarrow>
          (let result = shift s lag
           in case lag_fill_value t of
                None \<Rightarrow> Inr result
              | Some v \<Rightarrow> fill_null result v))"

text \<open>
  The instances a program can hold: made by the constructor, then fitted any number
  of times.
\<close>

inductive LagTransformer_reachable :: "LagTransformer \<Rightarrow> bool" where
  constructed: "LagTransformer_reachable (LagTransformer_init a fv)"
| fitted: "LagTransformer_reachable t \<Longrightarrow> LagTransformer_fit t s = Inr t'
     \<Longrightarrow> LagTransformer_reachable t'"

section \<open>The single-column contract (base.py)\<close>

text \<open>
  \<^verbatim>\<open>BaseColumnTransformer\<close> is the interface of the classes above; a value of the
  interface is one of them. \<^verbatim>\<open>fit\<close> and \<^verbatim>\<open>transform\<close> dispatch to the class.
\<close>

datatype transformer =
    T_Imputer Imputer
  | T_RollingImputer RollingImputer
  | T_MinMaxScaler MinMaxScaler
  | T_StandardScaler StandardScaler
  | T_Smoother Smoother
  | T_RollingSmoother RollingSmoother
  | T_LagTransformer LagTransformer
  | T_DiffTransformer DiffTransformer

fun fit :: "transformer \<Rightarrow> Series \<Rightarrow> error + transformer" where
  "fit (T_Imputer t) s = bnd (Imputer_fit t s) (\<lambda>t'. Inr (T_Imputer t'))"
| "fit (T_RollingImputer t) s = bnd (RollingImputer_fit t s) (\<lambda>t'. Inr (T_RollingImputer t'))"
| "fit (T_MinMaxScaler t) s = bnd (MinMaxScaler_fit t s) (\<lambda>t'. Inr (T_MinMaxScaler t'))"
| "fit (T_StandardScaler t) s = bnd (StandardScaler_fit t s) (\<lambda>t'. Inr (T_StandardScaler t'))"
| "fit (T_Smoother t) s = bnd (Smoother_fit t s) (\<lambda>t'. Inr (T_Smoother t'))"
| "fit (T_RollingSmoother t) s = bnd (RollingSmoother_fit t s) (\<lambda>t'. Inr (T_RollingSmoother t'))"
| "fit (T_LagTransformer t) s = bnd (LagTransformer_fit t s) (\<lambda>t'. Inr (T_LagTransformer t'))"
| "fit (T_DiffTransformer t) s = bnd (DiffTransformer_fit t s) (\<lambda>t'. Inr (T_DiffTransformer t'))"

fun transform :: "transformer \<Rightarrow> Series \<Rightarrow> error + Series" where
  "transform (T_Imputer t) s = Imputer_transform t s"
| "transform (T_RollingImputer t) s = RollingImputer_transform t s"
| "transform (T_MinMaxScaler t) s = MinMaxScaler_transform t s"
| "transform (T_StandardScaler t) s = StandardScaler_transform t s"
| "transform (T_Smoother t) s = Smoother_transform t s"
| "transform (T_RollingSmoother t) s = RollingSmoother_transform t s"
| "transform (T_LagTransformer t) s = LagTransformer_transform t s"
| "transform (T_DiffTransformer t) s = DiffTransformer_transform t s"

text \<open>
  Modelled from the spec: \<^verbatim>\<open>BaseColumnTransformer.fit_transform\<close> is in the absent
  \<^verbatim>\<open>base.py\<close>. The spec: "convenience composition; must be equivalent to calling
  \<^verbatim>\<open>fit\<close> then \<^verbatim>\<open>transform\<close> on the same column". The fitted transformer is returned
  with the output, as the object was changed in place.
\<close>

definition fit_transform :: "transformer \<Rightarrow> Series \<Rightarrow> error + transformer \<times> Series" where
  "fit_transform t s = bnd (fit t s) (\<lambda>t'. bnd (transform t' s) (\<lambda>out. Inr (t', out)))"

section \<open>MultiColumnTransformer (multi_column_transformer.py)\<close>

text \<open>
  Modelled from the spec: \<^verbatim>\<open>multi_column_transformer.py\<close> is absent; only its tests
  are in the repository. After section 4.2 of the spec:
  \<^item> the constructor refuses an empty list of column specifications;
  \<^item> \<^verbatim>\<open>fit\<close> resolves each specification in list order against the table (names as
    given; types against the schema, in the table's column order), fits a copy of the
    specification's transformer on each resolved column, records it under the column's
    name (a later specification for the same column replaces the earlier one), and
    marks the object fitted only when every fit succeeded;
  \<^item> \<^verbatim>\<open>transform\<close> fails when not fitted (the tests expect a \<^verbatim>\<open>RuntimeError\<close>,
    "must be fitted"); otherwise, for every column of the assignment, it replaces the
    column by the output of its transformer's \<^verbatim>\<open>transform\<close>. A column of the
    assignment that the table lacks is an engine error;
  \<^item> \<^verbatim>\<open>fit_transform\<close> is \<^verbatim>\<open>fit\<close> then \<^verbatim>\<open>transform\<close> on the same table.
  The assignment is a Python dictionary: an association list with one entry per key, in
  insertion order.
\<close>

datatype selector = ByName "string list" | ByDtype "dtype list"

record ColumnSpec =
  cs_name :: string
  cs_columns :: selector
  cs_transformer :: transformer

record MultiColumnTransformer =
  transformers :: "ColumnSpec list"
  col_to_transformer :: "(string \<times> transformer) list"
  is_fitted :: bool


fun resolve :: "selector \<Rightarrow> DataFrame \<Rightarrow> string list" where
  "resolve (ByName ns) df = ns"
| "resolve (ByDtype ds) df = map name (filter (\<lambda>c. dtype c \<in> set ds) df)"

fun fit_columns ::
  "transformer \<Rightarrow> DataFrame \<Rightarrow> string list \<Rightarrow> (string \<times> transformer) list
     \<Rightarrow> error + (string \<times> transformer) list" where
  "fit_columns tf df [] a = Inr a"
| "fit_columns tf df (n # ns) a =
     bnd (col df n) (\<lambda>c. bnd (fit tf c) (\<lambda>tf'. fit_columns tf df ns (AList.update n tf' a)))"

fun fit_specs ::
  "ColumnSpec list \<Rightarrow> DataFrame \<Rightarrow> (string \<times> transformer) list
     \<Rightarrow> error + (string \<times> transformer) list" where
  "fit_specs [] df a = Inr a"
| "fit_specs (sp # sps) df a =
     bnd (fit_columns (cs_transformer sp) df (resolve (cs_columns sp) df) a) (fit_specs sps df)"

definition MultiColumnTransformer_fit ::
  "MultiColumnTransformer \<Rightarrow> DataFrame \<Rightarrow> error + MultiColumnTransformer" where
  "MultiColumnTransformer_fit M df =
     bnd (fit_specs (transformers M) df [])
       (\<lambda>a. Inr (M\<lparr>col_to_transformer := a, is_fitted := True\<rparr>))"

fun transform_columns :: "(string \<times> transformer) list \<Rightarrow> DataFrame \<Rightarrow> error + DataFrame" where
  "transform_columns [] df = Inr df"
| "transform_columns ((n, tf) # rest) df =
     bnd (col df n) (\<lambda>c. bnd (transform tf c) (\<lambda>c'. transform_columns rest (replace_column df n c')))"

definition MultiColumnTransformer_transform ::
  "MultiColumnTransformer \<Rightarrow> DataFrame \<Rightarrow> error + DataFrame" where
  "MultiColumnTransformer_transform M df =
     (if \<not> is_fitted M then Inl (RuntimeError MustBeFitted)
      else transform_columns (col_to_transformer M) df)"

definition MultiColumnTransformer_fit_transform ::
  "MultiColumnTransformer \<Rightarrow> DataFrame \<Rightarrow> error + MultiColumnTransformer \<times> DataFrame" where
  "MultiColumnTransformer_fit_transform M df =
     bnd (MultiColumnTransformer_fit M df)
       (\<lambda>M'. bnd (MultiColumnTransformer_transform M' df) (\<lambda>out. Inr (M', out)))"

section \<open>Pipeline (pipeline.py)\<close>

text \<open>
  The steps are values of the interface \<^verbatim>\<open>BaseMultiColumnTransformer\<close>, whose
  \<^verbatim>\<open>fit_transform\<close> and \<^verbatim>\<open>transform\<close> the pipeline calls; they are parameters here
  (\<open>ft\<close>, \<open>tr\<close>), and so is the type of the table handed from step to step. A step
  changes when it is fitted, so \<open>ft\<close> returns the step with its output. An exception
  of a step ends the loop. \<^verbatim>\<open>pipeline.py\<close> keeps no fitted flag of the pipeline
  itself.
\<close>

record 's Pipeline =
  steps :: "'s list"

definition Pipeline_init :: "'s list \<Rightarrow> 's Pipeline" where
  "Pipeline_init sts = \<lparr>steps = sts\<rparr>"

fun fit_steps ::
  "('s \<Rightarrow> 'df \<Rightarrow> error + 's \<times> 'df) \<Rightarrow> 's list \<Rightarrow> 'df \<Rightarrow> error + 's list \<times> 'df" where
  "fit_steps ft [] df = Inr ([], df)"
| "fit_steps ft (step # rest) df =
     bnd (ft step df) (\<lambda>(step', df').
     bnd (fit_steps ft rest df') (\<lambda>(rest', out). Inr (step' # rest', out)))"

definition Pipeline_fit ::
  "('s \<Rightarrow> 'df \<Rightarrow> error + 's \<times> 'df) \<Rightarrow> 's Pipeline \<Rightarrow> 'df \<Rightarrow> error + 's Pipeline" where
  "Pipeline_fit ft P df = bnd (fit_steps ft (steps P) df) (\<lambda>(sts, out). Inr (P\<lparr>steps := sts\<rparr>))"



text \<open>
  \<^verbatim>\<open>pipeline.py\<close> has no fitted flag for the pipeline; the pipeline is fitted when
  each of its steps is (\<open>fitted\<close> is the steps' own notion).
\<close>

definition Pipeline_is_fitted :: "('s \<Rightarrow> bool) \<Rightarrow> 's Pipeline \<Rightarrow> bool" where
  "Pipeline_is_fitted fitted P = list_all fitted (steps P)"

section \<open>Example data\<close>

text \<open>
  A small table after the fixtures of the tests (\<^verbatim>\<open>col_a\<close> with a missing entry,
  \<^verbatim>\<open>col_c\<close> without), a mean imputer for \<^verbatim>\<open>col_a\<close> and a min-max scaler for
  \<^verbatim>\<open>col_c\<close>, each as the one column specification of a multi-column step.
\<close>

definition example_col_a :: Series where
  "example_col_a = \<lparr>name = ''col_a'', data = F64 [Some 1, None, Some 3]\<rparr>"

definition example_col_c :: Series where
  "example_col_c = \<lparr>name = ''col_c'', data = F64 [Some 10, Some 20, Some 30]\<rparr>"

definition example_table :: DataFrame where
  "example_table = [example_col_a, example_col_c]"

definition example_imputer :: Imputer where
  "example_imputer = \<lparr>imp_value = None, imp_strategy = Some MEAN, fitted_value = None\<rparr>"

definition example_impute_step :: MultiColumnTransformer where
  "example_impute_step =
     \<lparr>transformers = [\<lparr>cs_name = ''imputer'', cs_columns = ByName [''col_a''],
                       cs_transformer = T_Imputer example_imputer\<rparr>],
      col_to_transformer = [], is_fitted = False\<rparr>"

definition example_scale_step :: MultiColumnTransformer where
  "example_scale_step =
     \<lparr>transformers = [\<lparr>cs_name = ''scaler'', cs_columns = ByName [''col_c''],
                       cs_transformer = T_MinMaxScaler MinMaxScaler_init\<rparr>],
      col_to_transformer = [], is_fitted = False\<rparr>"

definition example_imputer_fitted :: Imputer where
  "example_imputer_fitted = example_imputer\<lparr>fitted_value := Some (LFloat 2)\<rparr>"

definition example_impute_step_fitted :: MultiColumnTransformer where
  "example_impute_step_fitted =
     example_impute_step\<lparr>col_to_transformer := [(''col_a'', T_Imputer example_imputer_fitted)],
       is_fitted := True\<rparr>"

definition example_scale_step_fitted :: MultiColumnTransformer where
  "example_scale_step_fitted =
     example_scale_step\<lparr>col_to_transformer :=
         [(''col_c'', T_MinMaxScaler \<lparr>mm_min = Some (LFloat 10), mm_max = Some (LFloat 30),
              mm_is_fitted = True\<rparr>)],
       is_fitted := True\<rparr>"

definition example_col_a_imputed :: Series where
  "example_col_a_imputed = \<lparr>name = ''col_a'', data = F64 [Some 1, Some 2, Some 3]\<rparr>"

definition example_table_imputed :: DataFrame where
  "example_table_imputed = [example_col_a_imputed, example_col_c]"

section \<open>Engine lemmas\<close>

lemma bnd_Inr_iff: "bnd m f = Inr y \<longleftrightarrow> (\<exists>x. m = Inr x \<and> f x = Inr y)"
  by (cases m) (simp_all add: bnd_def)

lemma bnd_Inl_iff: "bnd m f = Inl e \<longleftrightarrow> m = Inl e \<or> (\<exists>x. m = Inr x \<and> f x = Inl e)"
  by (cases m) (simp_all add: bnd_def)

lemma bnd_simps [simp]: "bnd (Inl e) f = Inl e" "bnd (Inr x) f = f x"
  by (simp_all add: bnd_def)

lemma fill_null_payload_error: "fill_null_payload p v = Inl e \<Longrightarrow> e = PolarsError"
  by (cases "(p, v)" rule: fill_null_payload.cases) simp_all

lemma fill_null_error: "fill_null s v = Inl e \<Longrightarrow> e = PolarsError"
  by (auto simp: fill_null_def bnd_Inl_iff dest: fill_null_payload_error)

subsection \<open>Columns, frames and the transformers' outputs\<close>

lemma length_shift_list [simp]: "length (shift_list n xs) = length xs"
  by (auto simp: shift_list_def)

lemma length_fill_list [simp]: "length (fill_list v xs) = length xs"
  by (simp add: fill_list_def)

lemma length_forward_from [simp]: "length (forward_from p xs) = length xs"
  by (induction p xs rule: forward_from.induct) simp_all

lemma length_forward_list [simp]: "length (forward_list xs) = length xs"
  by (simp add: forward_list_def)

lemma length_backward_list [simp]: "length (backward_list xs) = length xs"
  by (simp add: backward_list_def)

lemma length_diff_list [simp]: "length (diff_list n xs) = length xs"
  by (simp add: diff_list_def)

lemma length_rolling_list [simp]: "length (rolling_list f w m c xs) = length xs"
  by (simp add: rolling_list_def)

lemma length_interpolate_from [simp]: "length (interpolate_from p xs) = length xs"
  by (induction p xs rule: interpolate_from.induct) simp_all

lemma length_coalesce_list [simp]: "length (coalesce_list xs ys) = min (length xs) (length ys)"
  by (simp add: coalesce_list_def)

lemma no_null_fill_list [simp]: "filter (\<lambda>b. b) (map (\<lambda>x. x = None) (fill_list v xs)) = []"
  by (induction xs) (auto simp: fill_list_def split: option.splits)

lemma shift_props [simp]:
  "name (shift s n) = name s" "len (shift s n) = len s" "dtype (shift s n) = dtype s"
  by (cases "data s"; simp add: shift_def len_def dtype_def)+

lemma fill_null_forward_props [simp]:
  "name (fill_null_forward s) = name s" "len (fill_null_forward s) = len s"
  "dtype (fill_null_forward s) = dtype s"
  by (cases "data s"; simp add: fill_null_forward_def len_def dtype_def)+

lemma fill_null_backward_props [simp]:
  "name (fill_null_backward s) = name s" "len (fill_null_backward s) = len s"
  "dtype (fill_null_backward s) = dtype s"
  by (cases "data s"; simp add: fill_null_backward_def len_def dtype_def)+

lemma alias_col_props [simp]:
  "name (alias_col n s) = n" "len (alias_col n s) = len s" "dtype (alias_col n s) = dtype s"
  "data (alias_col n s) = data s" "is_null (alias_col n s) = is_null s"
  by (simp_all add: alias_col_def len_def dtype_def is_null_def)

lemma fill_null_payload_props:
  assumes "fill_null_payload p v = Inr q"
  shows "payload_len q = payload_len p" "filter (\<lambda>b. b) (payload_nulls q) = []"
  using assms by (cases "(p, v)" rule: fill_null_payload.cases; auto)+

lemma fill_null_props:
  assumes "fill_null s v = Inr s'"
  shows "name s' = name s" "len s' = len s" "null_count s' = 0"
  using assms
  by (auto simp: fill_null_def bnd_Inr_iff len_def null_count_def is_null_def
      dest: fill_null_payload_props)

lemma cast_payload_props:
  assumes "cast_payload p d = Inr q"
  shows "payload_len q = payload_len p" "payload_dtype q = d" "payload_nulls q = payload_nulls p"
  using assms by (cases "(p, d)" rule: cast_payload.cases; auto)+

lemma cast_props:
  assumes "cast s d = Inr s'"
  shows "name s' = name s" "len s' = len s" "dtype s' = d" "is_null s' = is_null s"
  using assms
  by (auto simp: cast_def bnd_Inr_iff len_def dtype_def is_null_def dest: cast_payload_props)

lemma diff_payload_props:
  assumes "diff_payload n p = Inr q"
  shows "payload_len q = payload_len p" "payload_dtype q = payload_dtype p"
  using assms by (cases "(n, p)" rule: diff_payload.cases; auto)+

lemma diff_props:
  assumes "diff s n = Inr s'"
  shows "name s' = name s" "len s' = len s" "dtype s' = dtype s"
  using assms
  by (auto simp: diff_def bnd_Inr_iff len_def dtype_def dest: diff_payload_props)

lemma col_props: "col df n = Inr c \<Longrightarrow> c \<in> set df \<and> name c = n"
  by (induction df) (auto split: if_splits)

lemma col_single [simp]: "col [s] (name s) = Inr s"
  by simp

lemma col_replace_column:
  "col df (name s) = Inr c \<Longrightarrow> col (replace_column df (name s) s) (name s) = Inr s"
  by (induction df) (auto split: if_splits)

lemma col_append_new:
  "n \<notin> set (columns df) \<Longrightarrow> col (df @ [s]) n = (if name s = n then Inr s else Inl PolarsError)"
  by (induction df) (auto simp: columns_def)

lemma col_defined: "n \<in> set (columns df) \<Longrightarrow> \<exists>c. col df n = Inr c"
  by (induction df) (auto simp: columns_def)

lemma set_replace_column: "set (replace_column df n s) \<subseteq> insert s (set df)"
  by (induction df) auto

lemma replace_column_not_Nil: "df \<noteq> [] \<Longrightarrow> replace_column df n s \<noteq> []"
  by (cases df) auto

lemma with_columns_props:
  assumes "with_columns df c = Inr df'"
  shows "col df' (name c) = Inr c" "\<forall>x\<in>set df. len x = len c" "df' \<noteq> []"
    "\<forall>x\<in>set df'. len x = len c"
proof -
  have ok: "\<forall>x\<in>set df. len x = len c"
    using assms by (auto simp: with_columns_def list_ex_iff split: if_splits)
  show "\<forall>x\<in>set df. len x = len c" by (rule ok)
  show "col df' (name c) = Inr c"
  proof (cases "name c \<in> set (columns df)")
    case True
    then obtain x where "col df (name c) = Inr x" using col_defined by blast
    with True assms ok show ?thesis
      by (auto simp: with_columns_def list_ex_iff col_replace_column split: if_splits)
  next
    case False
    with assms ok show ?thesis
      by (auto simp: with_columns_def list_ex_iff col_append_new split: if_splits)
  qed
  then show "df' \<noteq> []" by auto
  show "\<forall>x\<in>set df'. len x = len c"
    using assms ok set_replace_column [of df "name c" c]
    by (auto simp: with_columns_def list_ex_iff split: if_splits)
qed

lemma with_columns_single_len: "with_columns [s] c = Inr df' \<Longrightarrow> len c = len s"
  by (auto dest: with_columns_props(2))

text \<open>The last two steps of every frame-based transform.\<close>

lemma frame_result:
  assumes "with_columns df e = Inr temp_df" "col temp_df n = Inr r" "name e = n"
  shows "r = e"
  using with_columns_props(1) [OF assms(1)] assms(2,3) by simp

lemma Imputer_transform_props:
  assumes "Imputer_transform imp s = Inr r"
  shows "name r = name s" "len r = len s" "dtype r = dtype s"
proof -
  from assms obtain temp_df c where
    t: "(case imp_value imp of
            Some fill_val \<Rightarrow>
              bnd (col [s] (name s)) (\<lambda>c. bnd (fill_null c fill_val) (with_columns [s]))
          | None \<Rightarrow>
              if imp_strategy imp = Some FORWARD then
                bnd (col [s] (name s)) (\<lambda>c. with_columns [s] (fill_null_forward c))
              else if imp_strategy imp = Some BACKWARD then
                bnd (col [s] (name s)) (\<lambda>c. with_columns [s] (fill_null_backward c))
              else
                (case fitted_value imp of
                   None \<Rightarrow> Inl (ValueError HasNotBeenFitted)
                 | Some fv \<Rightarrow>
                     bnd (col [s] (name s)) (\<lambda>c. bnd (fill_null c fv) (with_columns [s])))) = Inr temp_df"
    and c: "col temp_df (name s) = Inr c" and r: "cast c (dtype s) = Inr r"
    unfolding Imputer_transform_def bnd_Inr_iff by blast
  from t obtain e where e: "with_columns [s] e = Inr temp_df" "name e = name s"
    by (auto simp: bnd_Inr_iff split: option.splits if_splits dest: fill_null_props(1))
  have "c = e" using frame_result [OF e(1) c e(2)] .
  moreover have "len e = len s" using e(1) by (rule with_columns_single_len)
  ultimately show "name r = name s" "len r = len s" "dtype r = dtype s"
    using cast_props [OF r] e(2) by simp_all
qed


lemma frame_single [simp]: "frame_of_height (len s) [s]"
  by (simp add: frame_of_height_def)

lemma frame_with_columns:
  assumes "frame_of_height h df" "with_columns df c = Inr df'"
  shows "frame_of_height h df'" "len c = h"
proof -
  from assms(1) obtain x where "x \<in> set df" "len x = h"
    by (cases df) (auto simp: frame_of_height_def)
  with with_columns_props(2) [OF assms(2)] show "len c = h" by auto
  with with_columns_props(3,4) [OF assms(2)] show "frame_of_height h df'"
    by (simp add: frame_of_height_def list_all_iff)
qed

lemma frame_col: "frame_of_height h df \<Longrightarrow> col df n = Inr c \<Longrightarrow> len c = h"
  by (auto simp: frame_of_height_def list_all_iff dest: col_props)

lemma select_cols_set: "select_cols df ns = Inr df' \<Longrightarrow> set df' \<subseteq> set df \<and> length df' = length ns"
  by (induction ns arbitrary: df') (auto simp: bnd_Inr_iff dest: col_props)

lemma frame_select:
  assumes "frame_of_height h df" "select df ns = Inr df'" "ns \<noteq> []"
  shows "frame_of_height h df'"
proof -
  from assms(2) have "select_cols df ns = Inr df'"
    by (auto simp: select_def split: if_splits)
  from select_cols_set [OF this] assms(1,3) show ?thesis
    by (auto simp: frame_of_height_def list_all_iff)
qed

lemma cast_alias_frame:
  assumes "frame_of_height h df" "cast c d = Inr e"
    "with_columns df (alias_col n e) = Inr temp_df" "col temp_df n = Inr r"
  shows "name r = n" "dtype r = d" "len r = h" "is_null r = is_null c"
proof -
  have r: "r = alias_col n e"
    using frame_result [OF assms(3,4)] by simp
  then show "name r = n" "dtype r = d" "is_null r = is_null c"
    using cast_props [OF assms(2)] by simp_all
  show "len r = h" using frame_with_columns(2) [OF assms(1,3)] r by simp
qed

lemma minmax_scale_props:
  assumes "minmax_scale mn mx s = Inr r"
  shows "name r = name s" "dtype r = dtype s" "len r = len s"
proof -
  from assms obtain c ys e temp_df where
    "cast (c\<lparr>data := F64 ys\<rparr>) (dtype s) = Inr e"
    "with_columns [s] (alias_col (name s) e) = Inr temp_df"
    "col temp_df (name s) = Inr r"
    by (auto simp: minmax_scale_def bnd_Inr_iff split: prod.splits)
  from cast_alias_frame [OF frame_single this]
  show "name r = name s" "dtype r = dtype s" "len r = len s" by simp_all
qed

lemma MinMaxScaler_transform_props:
  assumes "MinMaxScaler_transform m s = Inr r"
  shows "name r = name s" "dtype r = dtype s" "len r = len s"
  using assms minmax_scale_props [of "mm_min m" "mm_max m" s r]
  by (auto simp: MinMaxScaler_transform_def split: if_splits)

lemma StandardScaler_transform_props:
  assumes "StandardScaler_transform m s = Inr r"
  shows "name r = name s" "dtype r = dtype s" "len r = len s"
proof -
  from assms obtain c e temp_df where
    "cast c (dtype s) = Inr e"
    "with_columns [s] (alias_col (name s) e) = Inr temp_df"
    "col temp_df (name s) = Inr r"
    by (auto simp: StandardScaler_transform_def bnd_Inr_iff split: if_splits)
  from cast_alias_frame [OF frame_single this]
  show "name r = name s" "dtype r = dtype s" "len r = len s" by simp_all
qed

lemma RollingImputer_transform_chain:
  assumes "RollingImputer_transform ri s = Inr r"
  obtains temp_df c3 c4 e temp_df' where
    "frame_of_height (len s) temp_df"
    "fill_null c3 (LInt 0) = Inr c4"
    "cast c4 (dtype s) = Inr e"
    "with_columns temp_df (alias_col (name s) e) = Inr temp_df'"
    "col temp_df' (name s) = Inr r"
proof -
  from assms obtain temp_df st c3 c4 e temp_df' where
    a: "with_columns [s] (alias_col ''stat'' st) = Inr temp_df"
    and b: "fill_null c3 (LInt 0) = Inr c4"
    "cast c4 (dtype s) = Inr e"
    "with_columns temp_df (alias_col (name s) e) = Inr temp_df'"
    "col temp_df' (name s) = Inr r"
    unfolding RollingImputer_transform_def Let_def bnd_Inr_iff by blast
  from frame_with_columns(1) [OF frame_single a] b that show ?thesis by blast
qed

lemma RollingImputer_transform_props:
  assumes "RollingImputer_transform ri s = Inr r"
  shows "name r = name s" "dtype r = dtype s" "len r = len s" "null_count r = 0"
proof -
  from assms obtain temp_df c3 c4 e temp_df' where
    f: "frame_of_height (len s) temp_df" and
    n: "fill_null c3 (LInt 0) = Inr c4" and
    c: "cast c4 (dtype s) = Inr e"
    "with_columns temp_df (alias_col (name s) e) = Inr temp_df'"
    "col temp_df' (name s) = Inr r"
    by (rule RollingImputer_transform_chain)
  from cast_alias_frame [OF f c]
  show "name r = name s" "dtype r = dtype s" "len r = len s" by simp_all
  from cast_alias_frame(4) [OF f c] fill_null_props(3) [OF n]
  show "null_count r = 0" by (simp add: null_count_def)
qed

lemma Smoother_transform_props:
  assumes "Smoother_transform sm s = Inr r"
  shows "name r = name s" "dtype r = dtype s" "len r = len s"
proof -
  from assms obtain c zs df1 c' e temp_df where
    a: "with_columns [s] (alias_col ''z_score'' (c\<lparr>data := F64 zs\<rparr>)) = Inr df1" and
    b: "cast c' (dtype s) = Inr e"
    "with_columns df1 (alias_col (name s) e) = Inr temp_df"
    "col temp_df (name s) = Inr r"
    by (auto simp: Smoother_transform_def Let_def bnd_Inr_iff split: option.splits)
  from cast_alias_frame [OF frame_with_columns(1) [OF frame_single a] b]
  show "name r = name s" "dtype r = dtype s" "len r = len s" by simp_all
qed

lemma rolling_zscore_frame:
  assumes "frame_of_height h df"
    "rolling_zscore df cl w m c zt fv als wmed wmad = Inr df'"
  shows "frame_of_height h df'"
proof -
  from assms(2) obtain x1 df1 x2 df2 x3 df3 x4 df4 cols where
    s: "with_columns df x1 = Inr df1" "with_columns df1 x2 = Inr df2"
    "with_columns df2 x3 = Inr df3" "with_columns df3 x4 = Inr df4"
    "select df4 cols = Inr df'" "cols \<noteq> []"
    by (auto simp: rolling_zscore_def Let_def bnd_Inr_iff)
  show ?thesis
    using frame_select [OF _ s(5,6)] frame_with_columns(1) s(1-4) assms(1) by blast
qed

lemma RollingSmoother_transform_props:
  assumes "RollingSmoother_transform rs s = Inr r"
  shows "name r = name s" "dtype r = dtype s" "len r = len s"
proof -
  from assms obtain df c' e temp_df where
    a: "rolling_zscore [s] (name s) (rs_window_size rs) (rs_min_samples rs) (rs_center rs)
          (rs_zero_threshold rs) (rs_fill_value rs) ''z_score''
          (Some (RollingStrategy_value ROLLING_MEDIAN)) (Some ''mad'') = Inr df" and
    b: "cast c' (dtype s) = Inr e"
    "with_columns df (alias_col (name s) e) = Inr temp_df"
    "col temp_df (name s) = Inr r"
    by (auto simp: RollingSmoother_transform_def Let_def bnd_Inr_iff)
  from cast_alias_frame [OF rolling_zscore_frame [OF frame_single a] b]
  show "name r = name s" "dtype r = dtype s" "len r = len s" by simp_all
qed

lemma LagTransformer_transform_props:
  assumes "LagTransformer_transform t s = Inr r"
  shows "name r = name s" "len r = len s"
  using assms
  by (auto simp: LagTransformer_transform_def Let_def
      split: if_splits list.splits option.splits dest: fill_null_props)

lemma diff_rounds_props:
  "diff_rounds k per s = Inr r \<Longrightarrow> name r = name s \<and> len r = len s \<and> dtype r = dtype s"
  by (induction k arbitrary: s) (auto simp: bnd_Inr_iff dest: diff_props)

lemma DiffTransformer_transform_props:
  assumes "DiffTransformer_transform t s = Inr r"
  shows "name r = name s" "len r = len s" "dtype r = dtype s"
  using assms diff_rounds_props [of "nat (order t)" "periods t" s r]
  by (auto simp: DiffTransformer_transform_def split: if_splits)

lemma transform_name_len:
  assumes "transform t s = Inr r"
  shows "name r = name s" "len r = len s"
  using assms
  by (cases t;
      simp add: Imputer_transform_props RollingImputer_transform_props
        MinMaxScaler_transform_props StandardScaler_transform_props Smoother_transform_props
        RollingSmoother_transform_props LagTransformer_transform_props
        DiffTransformer_transform_props)+


subsection \<open>What a transform can raise\<close>

































section \<open>MultiColumnTransformer rewrites columns in place\<close>

lemma length_replace_column [simp]: "length (replace_column df n s) = length df"
  by (induction df) auto

lemma columns_replace_column:
  "name s = n \<Longrightarrow> columns (replace_column df n s) = columns df"
  by (induction df) (auto simp: columns_def)

lemma map_len_replace_column:
  "col df n = Inr c \<Longrightarrow> len s = len c \<Longrightarrow> map len (replace_column df n s) = map len df"
  by (induction df) (auto split: if_splits)

lemma nth_replace_column:
  "distinct (columns df) \<Longrightarrow> i < length df \<Longrightarrow>
   replace_column df n s ! i = (if name (df ! i) = n then s else df ! i)"
proof (induction df arbitrary: i)
  case Nil
  then show ?case by simp
next
  case (Cons c cs)
  show ?case
  proof (cases i)
    case 0
    then show ?thesis by simp
  next
    case (Suc j)
    with Cons.prems have j: "j < length cs" and d: "distinct (columns cs)"
      and nin: "name c \<notin> set (columns cs)"
      by (auto simp: columns_def)
    from j have "name (cs ! j) \<in> set (columns cs)" by (auto simp: columns_def)
    with nin have "name (cs ! j) \<noteq> name c" by auto
    with Suc Cons.IH [OF d j] show ?thesis by auto
  qed
qed

lemma col_nth:
  "distinct (columns df) \<Longrightarrow> i < length df \<Longrightarrow> col df (name (df ! i)) = Inr (df ! i)"
proof (induction df arbitrary: i)
  case Nil
  then show ?case by simp
next
  case (Cons c cs)
  show ?case
  proof (cases i)
    case 0
    then show ?thesis by simp
  next
    case (Suc j)
    with Cons.prems have j: "j < length cs" and d: "distinct (columns cs)"
      and nin: "name c \<notin> set (columns cs)"
      by (auto simp: columns_def)
    from j have "name (cs ! j) \<in> set (columns cs)" by (auto simp: columns_def)
    with nin have "name (cs ! j) \<noteq> name c" by auto
    with Suc Cons.IH [OF d j] show ?thesis by auto
  qed
qed

lemma transform_columns_props:
  assumes "distinct (map fst a)" "distinct (columns df)" "transform_columns a df = Inr df'"
  shows "columns df' = columns df \<and> map len df' = map len df \<and>
         (\<forall>i<length df. case map_of a (name (df ! i)) of
                          None \<Rightarrow> df' ! i = df ! i
                        | Some tf \<Rightarrow> transform tf (df ! i) = Inr (df' ! i))"
  using assms
proof (induction a arbitrary: df)
  case Nil
  then show ?case by simp
next
  case (Cons p rest)
  obtain n tf where p: "p = (n, tf)" by (cases p)
  from Cons.prems(3) p obtain c c' where
    c: "col df n = Inr c" and c': "transform tf c = Inr c'" and
    r: "transform_columns rest (replace_column df n c') = Inr df'"
    by (auto simp: bnd_Inr_iff)
  let ?df1 = "replace_column df n c'"
  have nc: "name c = n" using c by (simp add: col_props)
  have nc': "name c' = n" and lc': "len c' = len c"
    using transform_name_len [OF c'] nc by simp_all
  have cols1: "columns ?df1 = columns df" using nc' by (rule columns_replace_column)
  have lens1: "map len ?df1 = map len df" using c lc' by (rule map_len_replace_column)
  from Cons.prems(1) p have dr: "distinct (map fst rest)" and nr: "map_of rest n = None"
    by (auto simp: map_of_eq_None_iff)
  have IH: "columns df' = columns ?df1 \<and> map len df' = map len ?df1 \<and>
         (\<forall>i<length ?df1. case map_of rest (name (?df1 ! i)) of
                          None \<Rightarrow> df' ! i = ?df1 ! i
                        | Some tf \<Rightarrow> transform tf (?df1 ! i) = Inr (df' ! i))"
    using Cons.IH [OF dr _ r] cols1 Cons.prems(2) by simp
  have "case map_of (p # rest) (name (df ! i)) of
          None \<Rightarrow> df' ! i = df ! i
        | Some tf \<Rightarrow> transform tf (df ! i) = Inr (df' ! i)" if i: "i < length df" for i
  proof (cases "name (df ! i) = n")
    case True
    have "col df (name (df ! i)) = Inr (df ! i)" using Cons.prems(2) i by (rule col_nth)
    with True c have ci: "df ! i = c" by simp
    have "?df1 ! i = c'" using nth_replace_column [OF Cons.prems(2) i] True by simp
    moreover from IH i have "case map_of rest (name (?df1 ! i)) of
                      None \<Rightarrow> df' ! i = ?df1 ! i
                    | Some tf \<Rightarrow> transform tf (?df1 ! i) = Inr (df' ! i)"
      by simp
    ultimately have "df' ! i = c'" using nr nc' by (simp split: option.splits)
    with True ci c' p show ?thesis by simp
  next
    case False
    have e: "?df1 ! i = df ! i" using nth_replace_column [OF Cons.prems(2) i] False by simp
    from IH i have "case map_of rest (name (?df1 ! i)) of
                      None \<Rightarrow> df' ! i = ?df1 ! i
                    | Some tf \<Rightarrow> transform tf (?df1 ! i) = Inr (df' ! i)"
      by simp
    with e False p show ?thesis by (simp split: option.splits)
  qed
  with IH cols1 lens1 show ?case by simp
qed

lemma fit_columns_distinct:
  "distinct (map fst a) \<Longrightarrow> fit_columns tf df ns a = Inr a' \<Longrightarrow> distinct (map fst a')"
proof (induction ns arbitrary: a)
  case Nil
  then show ?case by simp
next
  case (Cons n ns)
  from Cons.prems(2) obtain tf' where "fit_columns tf df ns (AList.update n tf' a) = Inr a'"
    by (auto simp: bnd_Inr_iff)
  moreover have "distinct (map fst (AList.update n tf' a))"
    using Cons.prems(1) by (rule distinct_update)
  ultimately show ?case by (rule Cons.IH [rotated])
qed

lemma fit_specs_distinct:
  "distinct (map fst a) \<Longrightarrow> fit_specs sps df a = Inr a' \<Longrightarrow> distinct (map fst a')"
  by (induction sps arbitrary: a) (auto simp: bnd_Inr_iff dest: fit_columns_distinct)

lemma MultiColumnTransformer_fit_props:
  assumes "MultiColumnTransformer_fit M0 df = Inr M"
  shows "is_fitted M" "distinct (map fst (col_to_transformer M))"
    "transformers M = transformers M0"
  using assms fit_specs_distinct [of "[]" "transformers M0" df]
  by (auto simp: MultiColumnTransformer_fit_def bnd_Inr_iff)

text \<open>
  Claim C1. For every table \<open>t\<close> (with uniquely named columns) and every fitted
  MultiColumnTransformer \<open>M\<close>, a \<^verbatim>\<open>transform\<close> that returns replaces each column of
  the assignment with the output of that column's transformer's \<^verbatim>\<open>transform\<close>,
  leaves every other column as it was, entry for entry, and returns a table with the
  same column names in the same order, the same number of columns and the same
  number of rows in every column.
\<close>

theorem C1_transform_rewrites_in_place:
  assumes "MultiColumnTransformer_fit M0 t0 = Inr M"
    and "distinct (columns t)"
    and "MultiColumnTransformer_transform M t = Inr t'"
  shows "columns t' = columns t \<and> length t' = length t \<and> map len t' = map len t \<and>
         (\<forall>i<length t. case map_of (col_to_transformer M) (name (t ! i)) of
                         None \<Rightarrow> t' ! i = t ! i
                       | Some tf \<Rightarrow> transform tf (t ! i) = Inr (t' ! i))"
proof -
  from assms(3) have tc: "transform_columns (col_to_transformer M) t = Inr t'"
    by (auto simp: MultiColumnTransformer_transform_def split: if_splits)
  have p: "columns t' = columns t \<and> map len t' = map len t \<and>
         (\<forall>i<length t. case map_of (col_to_transformer M) (name (t ! i)) of
                         None \<Rightarrow> t' ! i = t ! i
                       | Some tf \<Rightarrow> transform tf (t ! i) = Inr (t' ! i))"
    using MultiColumnTransformer_fit_props(2) [OF assms(1)] assms(2) tc
    by (rule transform_columns_props)
  then have "length (columns t') = length (columns t)" by simp
  then have "length t' = length t" by (simp add: columns_def)
  with p show ?thesis by simp
qed

subsection \<open>Evaluating the examples\<close>

lemma example_impute_step_fit:
  "MultiColumnTransformer_fit example_impute_step example_table = Inr example_impute_step_fitted"
  by (simp add: example_impute_step_def example_table_def example_col_a_def example_col_c_def
      example_imputer_def example_impute_step_fitted_def example_imputer_fitted_def
      MultiColumnTransformer_fit_def Series_mean_def list_mean_def)

lemma example_impute_step_transform:
  "MultiColumnTransformer_transform example_impute_step_fitted example_table
     = Inr example_table_imputed"
  by (simp add: example_impute_step_def example_table_def example_col_a_def example_col_c_def
      example_imputer_def example_impute_step_fitted_def example_imputer_fitted_def
      example_table_imputed_def example_col_a_imputed_def MultiColumnTransformer_transform_def
      Imputer_transform_def fill_null_def with_columns_def len_def columns_def cast_def
      dtype_def fill_list_def Series_mean_def list_mean_def alias_col_def Let_def)

theorem C1_witness:
  "MultiColumnTransformer_fit example_impute_step example_table
     = Inr example_impute_step_fitted
   \<and> distinct (columns example_table)
   \<and> MultiColumnTransformer_transform example_impute_step_fitted example_table
     = Inr example_table_imputed
   \<and> columns example_table_imputed = columns example_table
   \<and> map len example_table_imputed = map len example_table
   \<and> example_table_imputed ! 1 = example_table ! 1"
proof -
  have d: "distinct (columns example_table)"
    by (simp add: example_table_def example_col_a_def example_col_c_def columns_def)
  from C1_transform_rewrites_in_place [OF example_impute_step_fit d example_impute_step_transform]
  have "columns example_table_imputed = columns example_table
        \<and> map len example_table_imputed = map len example_table"
    by simp
  moreover have "example_table_imputed ! 1 = example_table ! 1"
    by (simp add: example_table_imputed_def example_table_def)
  ultimately show ?thesis
    using example_impute_step_fit d example_impute_step_transform by simp
qed

section \<open>fit_transform is fit followed by transform\<close>

text \<open>
  Claim C2. For every column \<open>c\<close> and every single-column transformer \<open>T\<close>,
  \<^verbatim>\<open>T.fit_transform(c)\<close> gives the same output column (or raises the same error) as
  \<^verbatim>\<open>T.fit(c)\<close> followed by \<^verbatim>\<open>T.transform(c)\<close> on the same column.
\<close>

theorem C2_fit_transform_is_fit_then_transform:
  "map_sum id snd (fit_transform T c) = bnd (fit T c) (\<lambda>T'. transform T' c)"
proof (cases "fit T c")
  case (Inl e)
  then show ?thesis by (simp add: fit_transform_def)
next
  case (Inr T')
  then show ?thesis by (cases "transform T' c") (simp_all add: fit_transform_def)
qed

theorem C2_witness:
  "map_sum id snd (fit_transform (T_Imputer example_imputer) example_col_a)
     = Inr example_col_a_imputed
   \<and> bnd (fit (T_Imputer example_imputer) example_col_a) (\<lambda>T'. transform T' example_col_a)
     = Inr example_col_a_imputed"
proof -
  have "bnd (fit (T_Imputer example_imputer) example_col_a) (\<lambda>T'. transform T' example_col_a)
          = Inr example_col_a_imputed"
    by (simp add: example_imputer_def example_imputer_fitted_def example_col_a_def
      example_col_a_imputed_def
      Imputer_transform_def fill_null_def with_columns_def len_def columns_def cast_def
      dtype_def fill_list_def Series_mean_def list_mean_def alias_col_def Let_def)
  with C2_fit_transform_is_fit_then_transform [of "T_Imputer example_imputer" example_col_a]
  show ?thesis by simp
qed

section \<open>The not-fitted guard\<close>







section \<open>Pipeline.fit\<close>

lemma fit_steps_chain:
  assumes "fit_steps ft sts df = Inr (sts', out)"
  shows "\<exists>dfs. length dfs = Suc (length sts) \<and> dfs ! 0 = df \<and> dfs ! length sts = out \<and>
           length sts' = length sts \<and>
           (\<forall>i<length sts. ft (sts ! i) (dfs ! i) = Inr (sts' ! i, dfs ! Suc i))"
  using assms
proof (induction sts arbitrary: df sts')
  case Nil
  then show ?case by (auto intro: exI [of _ "[df]"])
next
  case (Cons st rest)
  from Cons.prems obtain st' df' rest' where
    a: "ft st df = Inr (st', df')" and b: "fit_steps ft rest df' = Inr (rest', out)"
    and c: "sts' = st' # rest'"
    by (auto simp: bnd_Inr_iff split: prod.splits)
  from Cons.IH [OF b] obtain dfs where
    d: "length dfs = Suc (length rest)" "dfs ! 0 = df'" "dfs ! length rest = out"
    "length rest' = length rest"
    "\<forall>i<length rest. ft (rest ! i) (dfs ! i) = Inr (rest' ! i, dfs ! Suc i)"
    by blast
  have "\<forall>i<length (st # rest). ft ((st # rest) ! i) ((df # dfs) ! i)
          = Inr (sts' ! i, (df # dfs) ! Suc i)"
  proof (intro allI impI)
    fix i assume "i < length (st # rest)"
    then show "ft ((st # rest) ! i) ((df # dfs) ! i) = Inr (sts' ! i, (df # dfs) ! Suc i)"
      using a c d by (cases i) auto
  qed
  with c d show ?case by (intro exI [of _ "df # dfs"]) simp
qed

lemma fit_steps_fitted:
  assumes "\<And>s d s' d'. ft s d = Inr (s', d') \<Longrightarrow> fitted s'"
  shows "fit_steps ft sts df = Inr (sts', out) \<Longrightarrow> list_all fitted sts'"
proof (induction sts arbitrary: df sts')
  case Nil
  then show ?case by simp
next
  case (Cons st rest)
  from Cons.prems obtain st' df' rest' where
    a: "ft st df = Inr (st', df')" and b: "fit_steps ft rest df' = Inr (rest', out)"
    and c: "sts' = st' # rest'"
    by (auto simp: bnd_Inr_iff split: prod.splits)
  from assms [OF a] Cons.IH [OF b] c show ?case by simp
qed

lemma MultiColumnTransformer_fit_transform_fitted:
  "MultiColumnTransformer_fit_transform M df = Inr (M', out) \<Longrightarrow> is_fitted M'"
  by (auto simp: MultiColumnTransformer_fit_transform_def bnd_Inr_iff
      dest: MultiColumnTransformer_fit_props(1))

text \<open>
  Claim C7. For every Pipeline with steps \<open>s\<^sub>1, \<dots>, s\<^sub>n\<close> and every table, a \<^verbatim>\<open>fit\<close>
  that returns has called each step's \<^verbatim>\<open>fit_transform\<close> in list order, the first on
  the given table and each later one on the output of the step before it (the tables
  \<open>dfs\<close>); the last output is not returned; the pipeline is returned with every step
  replaced by its fitted self, and, each \<^verbatim>\<open>fit_transform\<close> leaving its step fitted,
  the pipeline is fitted.
\<close>

theorem C7_Pipeline_fit_threads_steps:
  assumes "Pipeline_fit ft P df = Inr P'"
    and "\<forall>s d s' d'. ft s d = Inr (s', d') \<longrightarrow> fitted s'"
  shows "(\<exists>dfs. length dfs = Suc (length (steps P)) \<and> dfs ! 0 = df \<and>
            length (steps P') = length (steps P) \<and>
            (\<forall>i<length (steps P).
               ft (steps P ! i) (dfs ! i) = Inr (steps P' ! i, dfs ! Suc i)))
         \<and> Pipeline_is_fitted fitted P'"
proof -
  from assms(1) obtain sts out where
    f: "fit_steps ft (steps P) df = Inr (sts, out)" and p: "P' = P\<lparr>steps := sts\<rparr>"
    by (auto simp: Pipeline_fit_def bnd_Inr_iff split: prod.splits)
  have "list_all fitted sts"
    using assms(2) f by (intro fit_steps_fitted [of ft fitted]) blast+
  with fit_steps_chain [OF f] p
  show ?thesis by (auto simp: Pipeline_is_fitted_def)
qed

theorem C7_witness:
  "Pipeline_fit MultiColumnTransformer_fit_transform
     (Pipeline_init [example_impute_step, example_scale_step]) example_table
     = Inr \<lparr>steps = [example_impute_step_fitted, example_scale_step_fitted]\<rparr>
   \<and> Pipeline_is_fitted is_fitted \<lparr>steps = [example_impute_step_fitted, example_scale_step_fitted]\<rparr>"
proof -
  have f: "Pipeline_fit MultiColumnTransformer_fit_transform
     (Pipeline_init [example_impute_step, example_scale_step]) example_table
     = Inr \<lparr>steps = [example_impute_step_fitted, example_scale_step_fitted]\<rparr>"
    by (simp add: example_impute_step_def example_table_def example_col_a_def example_col_c_def
      example_imputer_def example_impute_step_fitted_def example_imputer_fitted_def
      example_scale_step_def example_scale_step_fitted_def
      MultiColumnTransformer_fit_def MultiColumnTransformer_transform_def
      MultiColumnTransformer_fit_transform_def
      Imputer_transform_def fill_null_def with_columns_def len_def columns_def cast_def
      dtype_def fill_list_def Series_mean_def list_mean_def alias_col_def Let_def
      Series_min_def Series_max_def MinMaxScaler_init_def MinMaxScaler_fit_def
      MinMaxScaler_transform_def minmax_scale_def minmax_denominator_def div_by_def
      Pipeline_fit_def Pipeline_init_def)
  have c: "\<forall>s d s' d'. MultiColumnTransformer_fit_transform s d = Inr (s', d') \<longrightarrow> is_fitted s'"
    by (blast dest: MultiColumnTransformer_fit_transform_fitted)
  from C7_Pipeline_fit_threads_steps [OF f c] f
  show ?thesis by blast
qed

section \<open>RollingImputer leaves no null\<close>


lemma with_columns_pair:
  "len c = len a \<Longrightarrow> len b = len a \<Longrightarrow> name a \<noteq> name b \<Longrightarrow>
   with_columns [a, b] c =
     Inr (if name c = name a then [c, b] else if name c = name b then [a, c] else [a, b, c])"
  by (simp add: with_columns_def columns_def)





section \<open>Name and data type of a transform's output\<close>







section \<open>Fitting on a column without values\<close>

lemma filter_all: "length (filter P xs) = length xs \<Longrightarrow> \<forall>x\<in>set xs. P x"
  using length_filter_less [of _ xs P] by fastforce

lemma non_null_all_None: "\<forall>x\<in>set xs. x = None \<Longrightarrow> non_null xs = []"
  by (induction xs) auto

lemma all_null_non_null:
  "length (filter (\<lambda>b. b) (map (\<lambda>x. x = None) xs)) = length xs \<Longrightarrow> non_null xs = []"
proof -
  assume a: "length (filter (\<lambda>b. b) (map (\<lambda>x. x = None) xs)) = length xs"
  have "length (filter (\<lambda>x. x = None) xs) = length xs"
    using a by (simp add: filter_map comp_def)
  from filter_all [OF this] show ?thesis by (rule non_null_all_None)
qed

lemma all_null_stats:
  assumes "all_null s"
  shows "Series_min s = None" "Series_max s = None" "Series_mean s = None"
    "Series_median s = None" "Series_std s = None"
  using assms
  by (cases "data s";
      simp add: all_null_def null_count_def is_null_def len_def Series_min_def Series_max_def
        Series_mean_def Series_median_def Series_std_def list_mean_def list_median_def
        list_std_def all_null_non_null)+

text \<open>
  What the classes without a check in \<^verbatim>\<open>fit\<close> do on such a column: the Imputer with
  the mean, median, minimum or maximum strategy, and the older copies of MinMaxScaler,
  store \<^verbatim>\<open>None\<close> and return; their next \<^verbatim>\<open>transform\<close> raises the not-fitted
  \<^verbatim>\<open>ValueError\<close>.
\<close>

lemma unchecked_fit_all_null:
  assumes "all_null s"
  shows "imp_strategy imp \<in> {Some MEAN, Some MEDIAN, Some MINIMUM, Some MAXIMUM} \<Longrightarrow>
           Imputer_fit imp s = Inr (imp\<lparr>fitted_value := None\<rparr>)"
    and "imp_value imp = None \<Longrightarrow>
           imp_strategy imp \<in> {Some MEAN, Some MEDIAN, Some MINIMUM, Some MAXIMUM} \<Longrightarrow>
           Imputer_transform (imp\<lparr>fitted_value := None\<rparr>) s'
             = Inl (ValueError HasNotBeenFitted)"
    and "MinMaxScaler_legacy_fit lg s = Inr (lg\<lparr>lg_min := None, lg_max := None\<rparr>)"
    and "MinMaxScaler_legacy_transform (lg\<lparr>lg_min := None, lg_max := None\<rparr>) s'
           = Inl (ValueError HasNotBeenFitted)"
  using all_null_stats [OF assms]
  by (auto simp: Imputer_transform_def MinMaxScaler_legacy_fit_def
      MinMaxScaler_legacy_transform_def)




section \<open>The denominator of MinMaxScaler\<close>






lemma trunc_to_int_0 [simp]: "trunc_to_int 0 = 0"
  by (simp add: trunc_to_int_def)









section \<open>LagTransformer is never unfitted\<close>

lemma LagTransformer_reachable_is_fitted:
  "LagTransformer_reachable t \<Longrightarrow> lag_is_fitted t"
  by (induction rule: LagTransformer_reachable.induct)
     (auto simp: LagTransformer_init_def LagTransformer_fit_def)

text \<open>
  Claim C9. Every LagTransformer instance is fitted from its construction on: the
  constructor sets \<^verbatim>\<open>is_fitted\<close> and \<^verbatim>\<open>fit\<close> sets it again, so for every input series
  \<^verbatim>\<open>transform\<close> never raises the not-fitted error.
\<close>

theorem C9_LagTransformer_never_not_fitted:
  assumes "LagTransformer_reachable t"
  shows "lag_is_fitted t \<and> LagTransformer_transform t s \<noteq> Inl (ValueError HasNotBeenFitted)"
proof -
  have f: "lag_is_fitted t"
    using assms by (rule LagTransformer_reachable_is_fitted)
  have "LagTransformer_transform t s \<noteq> Inl (ValueError HasNotBeenFitted)"
  proof
    assume a: "LagTransformer_transform t s = Inl (ValueError HasNotBeenFitted)"
    show False
    proof (cases "lags t")
      case Nil
      with a f show False by (simp add: LagTransformer_transform_def)
    next
      case (Cons lag rest)
      show False
      proof (cases "lag_fill_value t")
        case None
        with a f Cons show False by (simp add: LagTransformer_transform_def)
      next
        case (Some v)
        with a f Cons have "fill_null (shift s lag) v = Inl (ValueError HasNotBeenFitted)"
          by (simp add: LagTransformer_transform_def)
        then show False by (auto dest: fill_null_error)
      qed
    qed
  qed
  with f show ?thesis by simp
qed

theorem C9_witness:
  "LagTransformer_reachable (LagTransformer_init (Lags_int 1) None)
   \<and> lag_is_fitted (LagTransformer_init (Lags_int 1) None)
   \<and> LagTransformer_transform (LagTransformer_init (Lags_int 1) None)
        \<lparr>name = ''value'', data = I64 [Some 1, Some 2, Some 3]\<rparr>
      = Inr \<lparr>name = ''value'', data = I64 [None, Some 1, Some 2]\<rparr>"
proof -
  have r: "LagTransformer_reachable (LagTransformer_init (Lags_int 1) None)"
    by (rule LagTransformer_reachable.constructed)
  have "LagTransformer_transform (LagTransformer_init (Lags_int 1) None)
          \<lparr>name = ''value'', data = I64 [Some 1, Some 2, Some 3]\<rparr>
        = Inr \<lparr>name = ''value'', data = I64 [None, Some 1, Some 2]\<rparr>"
    by (simp add: LagTransformer_transform_def LagTransformer_init_def shift_def shift_list_def)
  with r C9_LagTransformer_never_not_fitted [OF r] show ?thesis by simp
qed

end
